theory Spec2Isabelle
  imports Main "HOL-Library.Word" "HOL-Library.AList"
begin

section \<open>The LimaHost backup service\<close>

text \<open>
  A shallow embedding of the chunked backup service (class \<open>BackupService\<close>, printed in
  \<open>src/backup/README.md\<close>). JavaScript objects are records, the \<open>Map\<close>s of the service are
  association lists in insertion order (\<open>map_of\<close> is \<open>get\<close>, \<open>AList.update\<close> is
  \<open>set\<close>, \<open>AList.delete\<close> is \<open>delete\<close>), a thrown error or rejected promise is the
  left summand of a result, and every method takes the state of the service and of its
  surroundings (virtual machines, chunk storage, scratch files) and returns the new one.

  The module binds \<open>fs\<close> to \<open>require('fs').promises\<close>. That object has \<open>stat\<close>, \<open>mkdir\<close>,
  \<open>readFile\<close>, \<open>writeFile\<close>, \<open>readdir\<close> and \<open>unlink\<close>, but neither \<open>createReadStream\<close> nor
  \<open>createWriteStream\<close>: a call of \<open>fs.createReadStream\<close> or \<open>fs.createWriteStream\<close> throws
  a \<open>TypeError\<close>, which inside an \<open>async\<close> method or the executor of a \<open>new Promise\<close>
  rejects the promise. The methods that open a stream are embedded as they run, up to
  that throw.
\<close>

subsection \<open>Data\<close>

type_synonym bytes = "8 word list"

datatype compression = NoCompression | Gzip | Brotli

datatype encryption = NoEncryption | Aes256

datatype backup_status = Creating | Completed | Failed

datatype op_type = BackupOp | RestoreOp

datatype op_status = Running | OpCompleted | OpFailed | Timeout

datatype vm_status = VmRunning | VmStopped

datatype log_level = LError | LWarn | LInfo | LDebug

text \<open>The value of \<open>config.storageBackend\<close>.\<close>

datatype backend = Local | S3 | Minio

text \<open>The commands handed to \<open>limactl\<close>, in the order they were issued.\<close>

datatype vm_command =
  Stop string | Start string | SnapshotCreate string string | SnapshotDelete string string

text \<open>
  Every \<open>throw new Error(...)\<close> and every rejected promise of the service. The service
  throws plain \<open>Error\<close>s told apart by their message; the constructor keeps the message's
  kind and the name it mentions. \<open>TypeError\<close> carries the message of a \<open>TypeError\<close> that
  the JavaScript engine throws, \<open>InvalidKeyLength\<close> is the error of
  \<open>crypto.createCipheriv\<close> for a key that does not fit the algorithm.
\<close>

datatype error =
  VmNotFound string
  | BackupNotFound string
  | VmCommandFailed string
  | FileNotFound string
  | DirectoryUnavailable string
  | ChunkUnavailable string
  | TypeError string
  | InvalidKeyLength

fun message :: "error \<Rightarrow> string" where
  "message (VmNotFound n) = ''VM '' @ n @ '' not found''"
| "message (BackupNotFound b) = ''Backup '' @ b @ '' not found''"
| "message (VmCommandFailed c) = ''Failed to '' @ c"
| "message (FileNotFound p) = ''ENOENT: no such file or directory, '' @ p"
| "message (DirectoryUnavailable p) = ''cannot make directory '' @ p"
| "message (ChunkUnavailable k) = ''chunk unavailable: '' @ k"
| "message (TypeError m) = m"
| "message InvalidKeyLength = ''Invalid key length''"

record chunk =
  chunk_id :: string
  chunk_backupId :: string
  chunk_index :: nat
  chunk_size :: nat
  chunk_checksum :: string

text \<open>
  \<open>BackupMetadata\<close> as \<open>createBackup\<close> builds it (\<open>vmInfo\<close>, the raw \<open>limactl\<close> record
  of the machine, is left out: nothing reads it again). Times are milliseconds since the
  epoch.
\<close>

record metadata =
  md_id :: string
  md_vmName :: string
  md_type :: string
  md_description :: string
  md_tags :: "string list"
  md_createdAt :: int
  md_createdBy :: string
  md_compression :: compression
  md_encryption :: encryption
  md_chunkSize :: nat
  md_status :: backup_status
  md_size :: nat
  md_chunks :: "chunk list"
  md_checksum :: "string option"
  md_integrityVerified :: bool
  md_completedAt :: "int option"

record operation =
  op_id :: string
  op_kind :: op_type
  op_vmName :: string
  op_backupId :: string
  op_status :: op_status
  op_startTime :: int
  op_endTime :: "int option"
  op_progress :: nat
  op_size :: nat
  op_error :: "string option"

text \<open>
  The counters of \<open>this.metrics\<close>. The two floating-point averages are left out: no
  modelled method reads them.
\<close>

record metrics =
  totalBackups :: nat
  successfulBackups :: nat
  failedBackups :: nat
  totalRestores :: nat
  successfulRestores :: nat
  failedRestores :: nat
  storageUsed :: int
  lastBackupTime :: "int option"

text \<open>
  \<open>this.config\<close>. \<open>cfg_storageConfig\<close> lists the entries of \<open>config.storageConfig\<close> that
  are present, each with its \<open>basePath\<close> (for \<open>local\<close>) or \<open>bucket\<close>.
\<close>

record config =
  cfg_tempDir :: string
  cfg_dataDir :: string
  cfg_defaultCompression :: compression
  cfg_defaultEncryption :: encryption
  cfg_compressionLevel :: nat
  cfg_chunkSize :: nat
  cfg_retention :: "(string \<times> int) list"
  cfg_timeout :: int
  cfg_encryptionKey :: "string option"
  cfg_requireIntegrityCheck :: bool
  cfg_storageBackend :: backend
  cfg_storageConfig :: "(backend \<times> string) list"

record backup_options =
  opt_type :: "string option"
  opt_description :: "string option"
  opt_tags :: "string list"
  opt_createdBy :: "string option"
  opt_stopVm :: bool

record restore_options =
  ropt_vmName :: "string option"

record vm =
  vm_state :: vm_status
  vm_disk :: bytes

text \<open>
  What the service does not compute itself: the digest of Node's \<open>crypto\<close>, the clock and
  the calendar, the random source, and the faults of the storage backend and of the
  scratch directory. Every definition below takes them as a parameter and no theorem
  assumes anything about them.
  \<^item> \<open>sha256 b\<close>: the hex SHA-256 digest of \<open>b\<close>;
  \<^item> \<open>time_at n\<close>: the value of the \<open>n\<close>-th reading of the clock;
    \<open>random_bytes n k\<close>: the \<open>n\<close>-th draw of \<open>k\<close> random bytes;
  \<^item> \<open>days_before t n\<close>: the instant of the \<open>Date\<close> that \<open>d.setDate(d.getDate() - n)\<close>
    leaves in \<open>d\<close> when \<open>d\<close> was the instant \<open>t\<close>: \<open>n\<close> calendar days earlier at the same
    wall-clock time of the local time zone;
  \<^item> \<open>readback key b\<close>: what a download of \<open>key\<close> returns when the backend holds \<open>b\<close>
    there (\<open>Some b\<close> for a sound backend, other bytes for a corrupted object, \<open>None\<close>
    for a failed request);
  \<^item> \<open>undeletable key\<close>: the backend refuses to delete \<open>key\<close>;
  \<^item> \<open>unwritable dir\<close>: the scratch directory \<open>dir\<close> cannot be made;
  \<^item> \<open>stale path\<close>: the scratch file is more than an hour old when the clean-up looks.
\<close>

record env =
  sha256 :: "bytes \<Rightarrow> string"
  time_at :: "nat \<Rightarrow> int"
  random_bytes :: "nat \<Rightarrow> nat \<Rightarrow> bytes"
  days_before :: "int \<Rightarrow> int \<Rightarrow> int"
  readback :: "string \<Rightarrow> bytes \<Rightarrow> bytes option"
  undeletable :: "string \<Rightarrow> bool"
  unwritable :: "string \<Rightarrow> bool"
  stale :: "string \<Rightarrow> bool"

text \<open>
  The state: the three members of the service (\<open>this.backups\<close>, \<open>this.operations\<close>,
  \<open>this.metrics\<close>), the calls of \<open>this.log\<close> (level and message), and the surroundings:
  the machines \<open>limactl\<close> knows with their disk images, the commands it was given, the
  chunk store by key, the scratch files by path, the scratch directories, the metadata
  documents by path, and how often the clock and the random source have been read.
\<close>

record state =
  backups :: "(string \<times> metadata) list"
  operations :: "(string \<times> operation) list"
  metrics :: metrics
  logs :: "(log_level \<times> string) list"
  vms :: "(string \<times> vm) list"
  commands :: "vm_command list"
  store :: "(string \<times> bytes) list"
  files :: "(string \<times> bytes) list"
  dirs :: "string list"
  documents :: "(string \<times> metadata) list"
  clock_reads :: nat
  random_draws :: nat

type_synonym 'a result = "(error + 'a) \<times> state"

subsection \<open>JavaScript helpers\<close>

definition digit_char :: "nat \<Rightarrow> char" where
  "digit_char n = ''0123456789abcdef'' ! (n mod 16)"

text \<open>\<open>Number.prototype.toString()\<close> of a non-negative integer.\<close>

fun show_nat :: "nat \<Rightarrow> string" where
  "show_nat n = (if n < 10 then [digit_char n] else show_nat (n div 10) @ [digit_char (n mod 10)])"

definition show_int :: "int \<Rightarrow> string" where
  "show_int i = (if i < 0 then CHR ''-'' # show_nat (nat (- i)) else show_nat (nat i))"

text \<open>\<open>Buffer.prototype.toString('hex')\<close>.\<close>

definition hex :: "bytes \<Rightarrow> string" where
  "hex b = concat (map (\<lambda>x. [digit_char (unat x div 16), digit_char (unat x mod 16)]) b)"

text \<open>\<open>a || b\<close> on an optional string: \<open>undefined\<close> and the empty string are falsy.\<close>

definition or_else :: "string option \<Rightarrow> string \<Rightarrow> string" where
  "or_else a b = (case a of None \<Rightarrow> b | Some x \<Rightarrow> if x = [] then b else x)"

text \<open>\<open>path.join\<close> of two segments that need no normalisation.\<close>

definition path_join :: "string \<Rightarrow> string \<Rightarrow> string" where
  "path_join a b = a @ ''/'' @ b"

text \<open>
  The \<open>TypeError\<close>s of the two stream constructors that \<open>fs\<close>, bound to the promise API,
  does not have.
\<close>

definition no_createReadStream :: error where
  "no_createReadStream = TypeError ''fs.createReadStream is not a function''"

definition no_createWriteStream :: error where
  "no_createWriteStream = TypeError ''fs.createWriteStream is not a function''"

subsection \<open>The surroundings\<close>

definition log_call :: "log_level \<Rightarrow> string \<Rightarrow> state \<Rightarrow> state" where
  "log_call lvl msg s = s\<lparr>logs := logs s @ [(lvl, msg)]\<rparr>"

text \<open>\<open>Date.now()\<close> and \<open>new Date()\<close>: the next reading of the clock.\<close>

definition date_now :: "env \<Rightarrow> state \<Rightarrow> int \<times> state" where
  "date_now E s = (time_at E (clock_reads s), s\<lparr>clock_reads := Suc (clock_reads s)\<rparr>)"

definition randomBytes :: "env \<Rightarrow> nat \<Rightarrow> state \<Rightarrow> bytes \<times> state" where
  "randomBytes E k s = (random_bytes E (random_draws s) k, s\<lparr>random_draws := Suc (random_draws s)\<rparr>)"

definition read_file :: "string \<Rightarrow> state \<Rightarrow> bytes option" where
  "read_file p s = map_of (files s) p"

definition write_file :: "string \<Rightarrow> bytes \<Rightarrow> state \<Rightarrow> state" where
  "write_file p b s = s\<lparr>files := AList.update p b (files s)\<rparr>"

text \<open>
  \<open>fs.mkdir(dir, { recursive: true })\<close>: the directory is there afterwards, or the call
  rejects.
\<close>

definition mkdir :: "env \<Rightarrow> string \<Rightarrow> state \<Rightarrow> unit result" where
  "mkdir E d s =
     (if unwritable E d then (Inl (DirectoryUnavailable d), s)
      else (Inr (), s\<lparr>dirs := List.insert d (dirs s)\<rparr>))"

text \<open>A direct entry of a directory, as \<open>fs.readdir\<close> lists it.\<close>

definition in_dir :: "string \<Rightarrow> string \<Rightarrow> bool" where
  "in_dir d p =
     (take (Suc (length d)) p = d @ ''/'' \<and> CHR ''/'' \<notin> set (drop (Suc (length d)) p))"

text \<open>
  The operation object is shared between the caller and \<open>this.operations\<close>; a mutation
  followed by \<open>this.operations.set(operation.id, operation)\<close> changes the entry in place.
\<close>

definition modify_op :: "string \<Rightarrow> (operation \<Rightarrow> operation) \<Rightarrow> state \<Rightarrow> state" where
  "modify_op oid f s = s\<lparr>operations := AList.map_entry oid f (operations s)\<rparr>"

definition modify_metrics :: "(metrics \<Rightarrow> metrics) \<Rightarrow> state \<Rightarrow> state" where
  "modify_metrics f s = s\<lparr>metrics := f (metrics s)\<rparr>"

subsection \<open>The machines\<close>

text \<open>\<open>limactl list --json\<close>, then \<open>vms.find(v => v.name === vmName)\<close>.\<close>

definition getVmInfo :: "string \<Rightarrow> state \<Rightarrow> vm option" where
  "getVmInfo vmName s = map_of (vms s) vmName"

text \<open>
  \<open>limactl show-ssh\<close> fails for a machine it does not know. The disk image at the
  returned path is the \<open>vm_disk\<close> of the machine, so the path is the machine's name.
\<close>

definition getVmDiskPath :: "string \<Rightarrow> state \<Rightarrow> error + string" where
  "getVmDiskPath vmName s =
     (case map_of (vms s) vmName of
        None \<Rightarrow> Inl (VmCommandFailed (''get VM disk path: '' @ vmName))
      | Some v \<Rightarrow> Inr vmName)"

definition set_vm_state :: "string \<Rightarrow> vm_status \<Rightarrow> state \<Rightarrow> state" where
  "set_vm_state vmName st s = s\<lparr>vms := AList.map_entry vmName (\<lambda>v. v\<lparr>vm_state := st\<rparr>) (vms s)\<rparr>"

definition stopVm :: "string \<Rightarrow> state \<Rightarrow> unit result" where
  "stopVm vmName s =
     (let s1 = s\<lparr>commands := commands s @ [Stop vmName]\<rparr> in
      case map_of (vms s1) vmName of
        None \<Rightarrow> (Inl (VmCommandFailed (''stop VM: '' @ vmName)), s1)
      | Some v \<Rightarrow> (Inr (), set_vm_state vmName VmStopped s1))"

definition startVm :: "string \<Rightarrow> state \<Rightarrow> unit result" where
  "startVm vmName s =
     (let s1 = s\<lparr>commands := commands s @ [Start vmName]\<rparr> in
      case map_of (vms s1) vmName of
        None \<Rightarrow> (Inl (VmCommandFailed (''start VM: '' @ vmName)), s1)
      | Some v \<Rightarrow> (Inr (), set_vm_state vmName VmRunning s1))"

text \<open>Snapshots are best effort: a failure is logged and the promise resolves.\<close>

definition createVmSnapshot :: "string \<Rightarrow> string \<Rightarrow> state \<Rightarrow> state" where
  "createVmSnapshot vmName snap s =
     (let s1 = s\<lparr>commands := commands s @ [SnapshotCreate vmName snap]\<rparr> in
      case map_of (vms s1) vmName of
        None \<Rightarrow> log_call LWarn ''Failed to create VM snapshot'' s1
      | Some v \<Rightarrow> log_call LDebug ''VM snapshot created'' s1)"

definition deleteVmSnapshot :: "string \<Rightarrow> string \<Rightarrow> state \<Rightarrow> state" where
  "deleteVmSnapshot vmName snap s =
     (let s1 = s\<lparr>commands := commands s @ [SnapshotDelete vmName snap]\<rparr> in
      case map_of (vms s1) vmName of
        None \<Rightarrow> log_call LWarn ''Failed to delete VM snapshot'' s1
      | Some v \<Rightarrow> log_call LDebug ''VM snapshot deleted'' s1)"

text \<open>\<open>rsync --sparse source dest\<close>.\<close>

definition copyVmDisk :: "string \<Rightarrow> string \<Rightarrow> state \<Rightarrow> unit result" where
  "copyVmDisk sourcePath destPath s =
     (case map_of (vms s) sourcePath of
        None \<Rightarrow> (Inl (FileNotFound sourcePath), s)
      | Some v \<Rightarrow> (Inr (), write_file destPath (vm_disk v) s))"

subsection \<open>Scratch files: compression and encryption\<close>

text \<open>
  \<open>compressFile\<close>: the first statement of the promise's executor is
  \<open>fs.createReadStream(filePath)\<close>, for every codec; nothing is read or written.
\<close>

definition compressFile :: "string \<Rightarrow> compression \<Rightarrow> state \<Rightarrow> string result" where
  "compressFile filePath compressionType s = (Inl no_createReadStream, s)"

text \<open>\<open>!this.config.encryptionKey\<close>: no key, or the empty passphrase.\<close>

definition no_key :: "config \<Rightarrow> bool" where
  "no_key cfg = (case cfg_encryptionKey cfg of None \<Rightarrow> True | Some k \<Rightarrow> k = [])"

text \<open>
  \<open>encryptFile\<close>: without a key the input path is returned at once. With a key the
  executor derives the key, draws the 16-byte IV and makes the cipher (\<open>aes-256-cbc\<close> for
  \<open>aes256\<close>, else \<open>aes-128-cbc\<close>, which rejects the 32-byte key), and then calls
  \<open>fs.createReadStream\<close>.
\<close>

definition encryptFile :: "env \<Rightarrow> config \<Rightarrow> string \<Rightarrow> encryption \<Rightarrow> state \<Rightarrow> string result" where
  "encryptFile E cfg filePath encryptionType s =
     (if no_key cfg then (Inr filePath, s)
      else
        (case randomBytes E 16 s of
           (iv, s1) \<Rightarrow>
             if encryptionType = Aes256 then (Inl no_createReadStream, s1)
             else (Inl InvalidKeyLength, s1)))"

text \<open>
  \<open>decryptFile\<close>: without a key the input path is returned at once. With a key the
  executor derives the key and calls \<open>fs.createReadStream\<close>.
\<close>

definition decryptFile :: "config \<Rightarrow> string \<Rightarrow> encryption \<Rightarrow> state \<Rightarrow> string result" where
  "decryptFile cfg filePath encryptionType s =
     (if no_key cfg then (Inr filePath, s) else (Inl no_createReadStream, s))"

text \<open>
  \<open>decompressFile\<close>: the first statement of the executor is \<open>fs.createReadStream(filePath)\<close>,
  before the codec is looked at.
\<close>

definition decompressFile :: "string \<Rightarrow> compression \<Rightarrow> state \<Rightarrow> string result" where
  "decompressFile filePath compressionType s = (Inl no_createReadStream, s)"

text \<open>
  The second \<open>cleanupTempFiles\<close> of the class (the later of two methods of that name,
  which is the one a call reaches): it lists the directory and unlinks its direct entries
  that are more than an hour old. A directory that cannot be listed is a logged warning;
  a failed unlink is swallowed.
\<close>

definition cleanupTempFiles :: "env \<Rightarrow> config \<Rightarrow> string option \<Rightarrow> state \<Rightarrow> state" where
  "cleanupTempFiles E cfg tempDir s =
     (let targetDir = or_else tempDir (cfg_tempDir cfg) in
      if targetDir \<in> set (dirs s)
      then s\<lparr>files := filter (\<lambda>(p, b). \<not> (in_dir targetDir p \<and> stale E p)) (files s)\<rparr>
      else log_call LWarn ''Failed to cleanup temp files'' s)"

subsection \<open>Chunks\<close>

definition storage_key :: "string \<Rightarrow> string \<Rightarrow> string" where
  "storage_key backupId chunkId = ''backups/'' @ backupId @ ''/chunks/'' @ chunkId"

text \<open>
  The entry of \<open>config.storageConfig\<close> that the chunk methods read: \<open>storageConfig.local\<close>
  for the local backend, \<open>storageConfig[storageBackend]\<close> for the others. Reading
  \<open>basePath\<close> or \<open>bucket\<close> of an absent entry throws a \<open>TypeError\<close>.
\<close>

definition storage_entry :: "config \<Rightarrow> string option" where
  "storage_entry cfg = map_of (cfg_storageConfig cfg) (cfg_storageBackend cfg)"

definition no_storage_entry :: error where
  "no_storage_entry = TypeError ''Cannot read properties of undefined''"

text \<open>
  \<open>splitAndUpload\<close>: \<open>fs.stat\<close> of the file, then \<open>fs.createReadStream\<close>. The loop over
  the stream, which would build and upload the chunks, is never entered.
\<close>

definition splitAndUpload :: "string \<Rightarrow> metadata \<Rightarrow> string \<Rightarrow> state \<Rightarrow> chunk list result" where
  "splitAndUpload filePath md oid s =
     (case read_file filePath s of
        None \<Rightarrow> (Inl (FileNotFound filePath), s)
      | Some content \<Rightarrow> (Inl no_createReadStream, s))"

text \<open>\<open>calculateFileChecksum\<close>: the executor makes the hash and calls \<open>fs.createReadStream\<close>.\<close>

definition calculateFileChecksum :: "string \<Rightarrow> state \<Rightarrow> error + string" where
  "calculateFileChecksum filePath s = Inl no_createReadStream"

text \<open>\<open>downloadChunk\<close>: \<open>fs.readFile\<close> under the base path, or \<open>getObject\<close> of the bucket.\<close>

definition downloadChunk :: "env \<Rightarrow> config \<Rightarrow> string \<Rightarrow> string \<Rightarrow> state \<Rightarrow> error + bytes" where
  "downloadChunk E cfg chunkId backupId s =
     (let key = storage_key backupId chunkId in
      case storage_entry cfg of
        None \<Rightarrow> Inl no_storage_entry
      | Some root \<Rightarrow>
          (case map_of (store s) key of
             None \<Rightarrow> Inl (ChunkUnavailable key)
           | Some b \<Rightarrow>
               (case readback E key b of
                  None \<Rightarrow> Inl (ChunkUnavailable key)
                | Some b' \<Rightarrow> Inr b')))"

text \<open>The loop of \<open>verifyBackupIntegrity\<close>, inside its \<open>try\<close>.\<close>

fun verify_loop :: "env \<Rightarrow> config \<Rightarrow> chunk list \<Rightarrow> state \<Rightarrow> bool \<times> state" where
  "verify_loop E cfg [] s = (True, s)"
| "verify_loop E cfg (c # cs) s =
     (case downloadChunk E cfg (chunk_id c) (chunk_backupId c) s of
        Inl e \<Rightarrow> (False, log_call LError ''Integrity verification failed'' s)
      | Inr chunkData \<Rightarrow>
          if sha256 E chunkData \<noteq> chunk_checksum c
          then (False, log_call LError ''Chunk integrity check failed'' s)
          else verify_loop E cfg cs s)"

definition verifyBackupIntegrity :: "env \<Rightarrow> config \<Rightarrow> chunk list \<Rightarrow> string \<Rightarrow> state \<Rightarrow> bool \<times> state" where
  "verifyBackupIntegrity E cfg chunks expectedChecksum s =
     (if \<not> cfg_requireIntegrityCheck cfg then (True, s) else verify_loop E cfg chunks s)"

subsection \<open>Backup\<close>

record backup_result =
  res_size :: nat
  res_chunks :: "chunk list"
  res_checksum :: string
  res_integrityVerified :: bool

text \<open>The \<open>catch\<close> block of \<open>performBackup\<close>; the error is thrown again.\<close>

definition performBackup_catch ::
  "env \<Rightarrow> config \<Rightarrow> string \<Rightarrow> metadata \<Rightarrow> string \<Rightarrow> error \<Rightarrow> state \<Rightarrow> backup_result result" where
  "performBackup_catch E cfg vmName md tempDir e s =
     (Inl e, deleteVmSnapshot vmName (md_id md @ ''-snapshot'') (cleanupTempFiles E cfg (Some tempDir) s))"

definition performBackup ::
  "env \<Rightarrow> config \<Rightarrow> string \<Rightarrow> metadata \<Rightarrow> string \<Rightarrow> state \<Rightarrow> backup_result result" where
  "performBackup E cfg vmName md oid s =
     (let tempDir = path_join (cfg_tempDir cfg) (md_id md);
          backupFile = path_join tempDir ''backup.tar''
      in case mkdir E tempDir s of
           (Inl e, s0) \<Rightarrow> performBackup_catch E cfg vmName md tempDir e s0
         | (Inr u0, s0) \<Rightarrow>
      (case getVmDiskPath vmName s0 of
           Inl e \<Rightarrow> performBackup_catch E cfg vmName md tempDir e s0
         | Inr vmDiskPath \<Rightarrow>
      (let s1 = createVmSnapshot vmName (md_id md @ ''-snapshot'') s0 in
       case copyVmDisk vmDiskPath backupFile s1 of
         (Inl e, s2) \<Rightarrow> performBackup_catch E cfg vmName md tempDir e s2
       | (Inr u, s2) \<Rightarrow>
      (case (if md_compression md \<noteq> NoCompression
             then compressFile backupFile (md_compression md) s2
             else (Inr backupFile, s2)) of
         (Inl e, s3) \<Rightarrow> performBackup_catch E cfg vmName md tempDir e s3
       | (Inr compressedFile, s3) \<Rightarrow>
      (case (if md_encryption md \<noteq> NoEncryption
             then encryptFile E cfg compressedFile (md_encryption md) s3
             else (Inr compressedFile, s3)) of
         (Inl e, s4) \<Rightarrow> performBackup_catch E cfg vmName md tempDir e s4
       | (Inr encryptedFile, s4) \<Rightarrow>
      (case splitAndUpload encryptedFile md oid s4 of
         (Inl e, s5) \<Rightarrow> performBackup_catch E cfg vmName md tempDir e s5
       | (Inr chunks, s5) \<Rightarrow>
      (case calculateFileChecksum encryptedFile s5 of
         Inl e \<Rightarrow> performBackup_catch E cfg vmName md tempDir e s5
       | Inr checksum \<Rightarrow>
      (case verifyBackupIntegrity E cfg chunks checksum s5 of
         (integrityVerified, s6) \<Rightarrow>
      (let s7 = deleteVmSnapshot vmName (md_id md @ ''-snapshot'') s6;
           s8 = cleanupTempFiles E cfg (Some tempDir) s7
       in case read_file encryptedFile s8 of
            None \<Rightarrow> performBackup_catch E cfg vmName md tempDir (FileNotFound encryptedFile) s8
          | Some b \<Rightarrow>
              (Inr \<lparr>res_size = length b, res_chunks = chunks, res_checksum = checksum,
                    res_integrityVerified = integrityVerified\<rparr>, s8))))))))))"

definition saveBackupMetadata :: "config \<Rightarrow> metadata \<Rightarrow> state \<Rightarrow> state" where
  "saveBackupMetadata cfg md s =
     s\<lparr>documents :=
         AList.update (path_join (path_join (cfg_dataDir cfg) ''metadata'') (md_id md @ ''.json'')) md
           (documents s)\<rparr>"

text \<open>
  \<open>collectMetrics\<close>, which \<open>updateMetrics\<close> calls: the storage used is recomputed from
  the recorded sizes.
\<close>

definition collectMetrics :: "state \<Rightarrow> state" where
  "collectMetrics s =
     log_call LDebug ''Metrics collected''
       (modify_metrics (\<lambda>m. m\<lparr>storageUsed := (\<Sum>md\<leftarrow>map snd (backups s). int (md_size md))\<rparr>) s)"

record created =
  created_backupId :: string
  created_metadata :: metadata
  created_size :: nat

text \<open>The inner \<open>try\<close> block of \<open>createBackup\<close>.\<close>

definition createBackup_try ::
  "env \<Rightarrow> config \<Rightarrow> string \<Rightarrow> string \<Rightarrow> metadata \<Rightarrow> string \<Rightarrow> state \<Rightarrow> created result" where
  "createBackup_try E cfg vmName backupId md oid s =
     (case performBackup E cfg vmName md oid s of
        (Inl e, s1) \<Rightarrow> (Inl e, s1)
      | (Inr backupResult, s1) \<Rightarrow>
          (case date_now E s1 of (completedAt, s2) \<Rightarrow>
          (let md' = md\<lparr>md_status := Completed,
                         md_size := res_size backupResult,
                         md_chunks := res_chunks backupResult,
                         md_checksum := Some (res_checksum backupResult),
                         md_integrityVerified := res_integrityVerified backupResult,
                         md_completedAt := Some completedAt\<rparr>;
               s3 = saveBackupMetadata cfg md' s2;
               s4 = s3\<lparr>backups := AList.update backupId md' (backups s3)\<rparr>
           in case date_now E s4 of (endTime, s5) \<Rightarrow>
          (let s6 = modify_op oid
                      (\<lambda>operation. operation\<lparr>op_status := OpCompleted, op_endTime := Some endTime,
                                              op_size := res_size backupResult, op_progress := 100\<rparr>) s5;
               s7 = modify_metrics
                      (\<lambda>m. m\<lparr>totalBackups := Suc (totalBackups m),
                              successfulBackups := Suc (successfulBackups m),
                              lastBackupTime := Some completedAt\<rparr>) s6;
               s8 = collectMetrics s7;
               s9 = log_call LInfo ''Backup completed successfully'' s8
           in (Inr \<lparr>created_backupId = backupId, created_metadata = md',
                    created_size = res_size backupResult\<rparr>, s9)))))"

text \<open>
  \<open>createBackup\<close> from the look-up of the machine to the \<open>finally\<close> block, which starts
  the machine again when it was stopped and whose own failure replaces the outcome of the
  \<open>try\<close> block.
\<close>

definition createBackup_body ::
  "env \<Rightarrow> config \<Rightarrow> string \<Rightarrow> backup_options \<Rightarrow> string \<Rightarrow> int \<Rightarrow> state \<Rightarrow> created result" where
  "createBackup_body E cfg vmName options backupId startTime s =
     (case getVmInfo vmName s of
        None \<Rightarrow> (Inl (VmNotFound vmName), s)
      | Some vmInfo \<Rightarrow>
          (let operation = \<lparr>op_id = ''op-'' @ backupId, op_kind = BackupOp, op_vmName = vmName,
                            op_backupId = backupId, op_status = Running, op_startTime = startTime,
                            op_endTime = None, op_progress = 0, op_size = 0, op_error = None\<rparr>;
               s1 = s\<lparr>operations := AList.update (op_id operation) operation (operations s)\<rparr>
           in case date_now E s1 of (createdAt, s2) \<Rightarrow>
          (let md = \<lparr>md_id = backupId, md_vmName = vmName,
                     md_type = or_else (opt_type options) ''manual'',
                     md_description = or_else (opt_description options) (''Backup of '' @ vmName),
                     md_tags = opt_tags options,
                     md_createdAt = createdAt,
                     md_createdBy = or_else (opt_createdBy options) ''system'',
                     md_compression = cfg_defaultCompression cfg,
                     md_encryption = cfg_defaultEncryption cfg,
                     md_chunkSize = cfg_chunkSize cfg,
                     md_status = Creating, md_size = 0, md_chunks = [], md_checksum = None,
                     md_integrityVerified = False, md_completedAt = None\<rparr>;
               wasRunning = (vm_state vmInfo = VmRunning)
           in case (if opt_stopVm options \<and> wasRunning then stopVm vmName s2 else (Inr (), s2)) of
                (Inl e, s3) \<Rightarrow> (Inl e, s3)
              | (Inr u, s3) \<Rightarrow>
                  (case createBackup_try E cfg vmName backupId md (op_id operation) s3 of
                     (outcome, s4) \<Rightarrow>
                       if opt_stopVm options \<and> wasRunning then
                         (case startVm vmName s4 of
                            (Inl e, s5) \<Rightarrow> (Inl e, s5)
                          | (Inr u', s5) \<Rightarrow> (outcome, s5))
                       else (outcome, s4)))))"

text \<open>The outer \<open>catch\<close> block of \<open>createBackup\<close>; the error is thrown again.\<close>

definition createBackup_catch :: "env \<Rightarrow> string \<Rightarrow> error \<Rightarrow> state \<Rightarrow> state" where
  "createBackup_catch E backupId e s =
     (let s1 = log_call LError ''Backup failed'' s;
          s2 = (case map_of (operations s1) (''op-'' @ backupId) of
                  None \<Rightarrow> s1
                | Some operation \<Rightarrow>
                    (case date_now E s1 of (endTime, s') \<Rightarrow>
                       modify_op (op_id operation)
                         (\<lambda>operation. operation\<lparr>op_status := OpFailed, op_endTime := Some endTime,
                                                 op_error := Some (message e)\<rparr>) s'))
      in modify_metrics (\<lambda>m. m\<lparr>totalBackups := Suc (totalBackups m),
                                failedBackups := Suc (failedBackups m)\<rparr>) s2)"

definition createBackup :: "env \<Rightarrow> config \<Rightarrow> string \<Rightarrow> backup_options \<Rightarrow> state \<Rightarrow> created result" where
  "createBackup E cfg vmName options s =
     (case date_now E s of (t, s1) \<Rightarrow>
      case randomBytes E 4 s1 of (r, s2) \<Rightarrow>
      case date_now E s2 of (startTime, s3) \<Rightarrow>
      (let backupId = ''backup-'' @ show_int t @ ''-'' @ hex r;
           s4 = log_call LInfo ''Creating backup'' s3
       in case createBackup_body E cfg vmName options backupId startTime s4 of
            (Inl e, s5) \<Rightarrow> (Inl e, createBackup_catch E backupId e s5)
          | (Inr created, s5) \<Rightarrow> (Inr created, s5)))"

subsection \<open>Restore\<close>

text \<open>
  \<open>downloadAndReassembleChunks\<close>: the path of the scratch file is made, and
  \<open>fs.createWriteStream\<close> is called on it, before the chunk list is sorted and before any
  chunk is asked for.
\<close>

definition downloadAndReassembleChunks :: "config \<Rightarrow> metadata \<Rightarrow> string \<Rightarrow> state \<Rightarrow> string result" where
  "downloadAndReassembleChunks cfg md oid s = (Inl no_createWriteStream, s)"

text \<open>\<open>fs.copyFile\<close> of a scratch file onto the disk image of a machine.\<close>

definition copyFile :: "string \<Rightarrow> string \<Rightarrow> state \<Rightarrow> unit result" where
  "copyFile src vmDiskPath s =
     (case read_file src s of
        None \<Rightarrow> (Inl (FileNotFound src), s)
      | Some b \<Rightarrow> (Inr (), s\<lparr>vms := AList.map_entry vmDiskPath (\<lambda>v. v\<lparr>vm_disk := b\<rparr>) (vms s)\<rparr>))"

definition performRestore_catch :: "env \<Rightarrow> config \<Rightarrow> string \<Rightarrow> error \<Rightarrow> state \<Rightarrow> unit result" where
  "performRestore_catch E cfg tempDir e s = (Inl e, cleanupTempFiles E cfg (Some tempDir) s)"

definition performRestore ::
  "env \<Rightarrow> config \<Rightarrow> metadata \<Rightarrow> restore_options \<Rightarrow> string \<Rightarrow> state \<Rightarrow> unit result" where
  "performRestore E cfg md options oid s =
     (let tempDir = path_join (cfg_tempDir cfg) (''restore-'' @ md_id md) in
      case mkdir E tempDir s of
        (Inl e, s0) \<Rightarrow> performRestore_catch E cfg tempDir e s0
      | (Inr u0, s0) \<Rightarrow>
      (case downloadAndReassembleChunks cfg md oid s0 of
        (Inl e, s1) \<Rightarrow> performRestore_catch E cfg tempDir e s1
      | (Inr encryptedFile, s1) \<Rightarrow>
      (case (if md_encryption md \<noteq> NoEncryption
             then decryptFile cfg encryptedFile (md_encryption md) s1
             else (Inr encryptedFile, s1)) of
         (Inl e, s2) \<Rightarrow> performRestore_catch E cfg tempDir e s2
       | (Inr decryptedFile, s2) \<Rightarrow>
      (case (if md_compression md \<noteq> NoCompression
             then decompressFile decryptedFile (md_compression md) s2
             else (Inr decryptedFile, s2)) of
         (Inl e, s3) \<Rightarrow> performRestore_catch E cfg tempDir e s3
       | (Inr decompressedFile, s3) \<Rightarrow>
      (let targetVmName = or_else (ropt_vmName options) (md_vmName md) in
       case (case getVmInfo targetVmName s3 of
               None \<Rightarrow> (Inr (), s3)
             | Some vmInfo \<Rightarrow>
                 if vm_state vmInfo = VmRunning then stopVm targetVmName s3 else (Inr (), s3)) of
         (Inl e, s4) \<Rightarrow> performRestore_catch E cfg tempDir e s4
       | (Inr u, s4) \<Rightarrow>
      (case getVmDiskPath targetVmName s4 of
         Inl e \<Rightarrow> performRestore_catch E cfg tempDir e s4
       | Inr vmDiskPath \<Rightarrow>
      (case copyFile decompressedFile vmDiskPath s4 of
         (Inl e, s5) \<Rightarrow> performRestore_catch E cfg tempDir e s5
       | (Inr u', s5) \<Rightarrow>
      (case startVm targetVmName s5 of
         (Inl e, s6) \<Rightarrow> performRestore_catch E cfg tempDir e s6
       | (Inr u'', s6) \<Rightarrow> (Inr (), cleanupTempFiles E cfg (Some tempDir) s6)))))))))"

record restored =
  restored_backupId :: string
  restored_vmName :: string

text \<open>
  The \<open>catch\<close> block of \<open>restoreBackup\<close>: it looks the operation up under an id made
  from a new reading of the clock.
\<close>

definition restoreBackup_catch :: "env \<Rightarrow> error \<Rightarrow> state \<Rightarrow> restored result" where
  "restoreBackup_catch E e s =
     (let s1 = log_call LError ''Backup restore failed'' s in
      case date_now E s1 of (t, s2) \<Rightarrow>
      (let s3 = (case map_of (operations s2) (''op-restore-'' @ show_int t) of
                   None \<Rightarrow> s2
                 | Some operation \<Rightarrow>
                     (case date_now E s2 of (endTime, s') \<Rightarrow>
                        modify_op (op_id operation)
                          (\<lambda>operation. operation\<lparr>op_status := OpFailed, op_endTime := Some endTime,
                                                  op_error := Some (message e)\<rparr>) s'))
       in (Inl e, modify_metrics (\<lambda>m. m\<lparr>totalRestores := Suc (totalRestores m),
                                          failedRestores := Suc (failedRestores m)\<rparr>) s3)))"

definition restoreBackup :: "env \<Rightarrow> config \<Rightarrow> string \<Rightarrow> restore_options \<Rightarrow> state \<Rightarrow> restored result" where
  "restoreBackup E cfg backupId options s =
     (case date_now E s of (startTime, s0) \<Rightarrow>
      (let s1 = log_call LInfo ''Starting backup restore'' s0 in
       case map_of (backups s1) backupId of
         None \<Rightarrow> restoreBackup_catch E (BackupNotFound backupId) s1
       | Some md \<Rightarrow>
           (case date_now E s1 of (t, s2) \<Rightarrow>
           (let operation = \<lparr>op_id = ''op-restore-'' @ show_int t, op_kind = RestoreOp,
                             op_vmName = or_else (ropt_vmName options) (md_vmName md),
                             op_backupId = backupId, op_status = Running, op_startTime = startTime,
                             op_endTime = None, op_progress = 0, op_size = 0, op_error = None\<rparr>;
                s3 = s2\<lparr>operations := AList.update (op_id operation) operation (operations s2)\<rparr>
            in case performRestore E cfg md options (op_id operation) s3 of
                 (Inl e, s4) \<Rightarrow> restoreBackup_catch E e s4
               | (Inr u, s4) \<Rightarrow>
                   (case date_now E s4 of (endTime, s5) \<Rightarrow>
                   (let s6 = modify_op (op_id operation)
                               (\<lambda>operation. operation\<lparr>op_status := OpCompleted,
                                                       op_endTime := Some endTime,
                                                       op_progress := 100\<rparr>) s5;
                        s7 = modify_metrics
                               (\<lambda>m. m\<lparr>totalRestores := Suc (totalRestores m),
                                       successfulRestores := Suc (successfulRestores m)\<rparr>) s6;
                        s8 = log_call LInfo ''Backup restore completed successfully'' s7
                    in (Inr \<lparr>restored_backupId = backupId,
                             restored_vmName = op_vmName operation\<rparr>, s8)))))))"

subsection \<open>Deletion and retention\<close>

text \<open>
  \<open>deleteChunk\<close>: the request is formed from the entry of \<open>storageConfig\<close>, which throws
  when the entry is absent; the rejection of the unlink or of \<open>deleteObject\<close> itself (an
  absent key, a refusal of the backend) is swallowed by \<open>.catch(() => {})\<close>.
\<close>

definition deleteChunk :: "env \<Rightarrow> config \<Rightarrow> string \<Rightarrow> string \<Rightarrow> state \<Rightarrow> unit result" where
  "deleteChunk E cfg chunkId backupId s =
     (let key = storage_key backupId chunkId in
      case storage_entry cfg of
        None \<Rightarrow> (Inl no_storage_entry, s)
      | Some root \<Rightarrow>
          if map_of (store s) key \<noteq> None \<and> \<not> undeletable E key
          then (Inr (), s\<lparr>store := AList.delete key (store s)\<rparr>)
          else (Inr (), s))"

text \<open>The loop over \<open>metadata.chunks\<close> in \<open>deleteBackup\<close>, with its \<open>try\<close> and \<open>catch\<close>.\<close>

fun delete_chunks_loop :: "env \<Rightarrow> config \<Rightarrow> string \<Rightarrow> chunk list \<Rightarrow> state \<Rightarrow> state" where
  "delete_chunks_loop E cfg backupId [] s = s"
| "delete_chunks_loop E cfg backupId (c # cs) s =
     (case deleteChunk E cfg (chunk_id c) backupId s of
        (Inl e, s1) \<Rightarrow> delete_chunks_loop E cfg backupId cs (log_call LWarn ''Failed to delete chunk'' s1)
      | (Inr u, s1) \<Rightarrow> delete_chunks_loop E cfg backupId cs s1)"

definition deleteBackup :: "env \<Rightarrow> config \<Rightarrow> string \<Rightarrow> state \<Rightarrow> unit result" where
  "deleteBackup E cfg backupId s =
     (case map_of (backups s) backupId of
        None \<Rightarrow> (Inl (BackupNotFound backupId), s)
      | Some md \<Rightarrow>
          (let s1 = delete_chunks_loop E cfg backupId (md_chunks md) s;
               metadataPath = path_join (path_join (cfg_dataDir cfg) ''metadata'') (backupId @ ''.json'');
               s2 = s1\<lparr>documents := AList.delete metadataPath (documents s1)\<rparr>;
               s3 = s2\<lparr>backups := AList.delete backupId (backups s2)\<rparr>
           in (Inr (), modify_metrics (\<lambda>m. m\<lparr>storageUsed := storageUsed m - int (md_size md)\<rparr>) s3)))"

text \<open>The second loop of \<open>applyRetentionPolicy\<close>.\<close>

fun retention_loop :: "env \<Rightarrow> config \<Rightarrow> string list \<Rightarrow> state \<Rightarrow> state" where
  "retention_loop E cfg [] s = s"
| "retention_loop E cfg (backupId # rest) s =
     (case deleteBackup E cfg backupId s of
        (Inl e, s1) \<Rightarrow> retention_loop E cfg rest (log_call LError ''Failed to delete expired backup'' s1)
      | (Inr u, s1) \<Rightarrow> retention_loop E cfg rest (log_call LInfo ''Deleted expired backup'' s1))"

text \<open>
  \<open>applyRetentionPolicy\<close>. The cut-off is \<open>new Date()\<close> after
  \<open>setDate(getDate() - retention)\<close>: \<open>retention\<close> calendar days before the reading of the
  clock, in local time.
\<close>

definition applyRetentionPolicy :: "env \<Rightarrow> config \<Rightarrow> string \<Rightarrow> state \<Rightarrow> state" where
  "applyRetentionPolicy E cfg backupType s =
     (case map_of (cfg_retention cfg) backupType of
        None \<Rightarrow> s
      | Some retention \<Rightarrow>
          if retention = 0 then s
          else
            (case date_now E s of (now, s1) \<Rightarrow>
            (let cutoffDate = days_before E now retention;
                 backupsToDelete =
                   map fst (filter (\<lambda>(backupId, md). md_type md = backupType \<and> md_createdAt md < cutoffDate)
                              (backups s1))
             in retention_loop E cfg backupsToDelete s1)))"

subsection \<open>The sweep for stuck operations\<close>

definition timed_out :: "config \<Rightarrow> int \<Rightarrow> operation \<Rightarrow> bool" where
  "timed_out cfg now operation = (op_status operation = Running \<and> now - op_startTime operation > cfg_timeout cfg)"

text \<open>The loop of \<open>checkStuckOperations\<close> over the entries of \<open>this.operations\<close>.\<close>

fun sweep_loop :: "config \<Rightarrow> int \<Rightarrow> (string \<times> operation) list \<Rightarrow> state \<Rightarrow> state" where
  "sweep_loop cfg now [] s = s"
| "sweep_loop cfg now ((operationId, operation) # rest) s =
     (if timed_out cfg now operation then
        sweep_loop cfg now rest
          (log_call LWarn ''Operation timed out''
             (s\<lparr>operations :=
                  AList.update operationId
                    (operation\<lparr>op_status := Timeout, op_endTime := Some now,
                               op_error := Some ''Operation timed out''\<rparr>)
                    (operations s)\<rparr>))
      else sweep_loop cfg now rest s)"

definition checkStuckOperations :: "env \<Rightarrow> config \<Rightarrow> state \<Rightarrow> state" where
  "checkStuckOperations E cfg s =
     (case date_now E s of (now, s1) \<Rightarrow> sweep_loop cfg now (operations s1) s1)"

subsection \<open>What the sweep is to do to one operation\<close>

text \<open>
  The effect the sweep is to have on a single operation at time \<open>now\<close>: a running
  operation that started more than the configured timeout ago is marked \<open>timeout\<close>, with
  its end time and an error message; any other operation is left as it is.
\<close>

definition mark_timeout :: "config \<Rightarrow> int \<Rightarrow> operation \<Rightarrow> operation" where
  "mark_timeout cfg now operation =
     (if timed_out cfg now operation
      then operation\<lparr>op_status := Timeout, op_endTime := Some now,
                      op_error := Some ''Operation timed out''\<rparr>
      else operation)"

text \<open>The state apart from the operation table, the log and the count of clock readings.\<close>

definition outside_operations :: "state \<Rightarrow> state" where
  "outside_operations s = s\<lparr>operations := [], logs := [], clock_reads := 0\<rparr>"

subsection \<open>Notions for verification, deletion and retention\<close>

text \<open>
  Downloading the chunk again yields bytes whose SHA-256 is the recorded checksum: the
  test \<open>verifyBackupIntegrity\<close> makes for one chunk.
\<close>

definition rehashes :: "env \<Rightarrow> config \<Rightarrow> state \<Rightarrow> chunk \<Rightarrow> bool" where
  "rehashes E cfg s c =
     (case downloadChunk E cfg (chunk_id c) (chunk_backupId c) s of
        Inl e \<Rightarrow> False
      | Inr b \<Rightarrow> sha256 E b = chunk_checksum c)"

text \<open>The storage key of a chunk of the backup \<open>backupId\<close>.\<close>

definition chunk_key :: "string \<Rightarrow> chunk \<Rightarrow> string" where
  "chunk_key backupId c = storage_key backupId (chunk_id c)"

text \<open>
  A delete request for the key can be formed and the backend does not refuse it.
\<close>

definition removable :: "env \<Rightarrow> config \<Rightarrow> string \<Rightarrow> bool" where
  "removable E cfg key = (storage_entry cfg \<noteq> None \<and> \<not> undeletable E key)"

text \<open>
  The test of the first loop of \<open>applyRetentionPolicy\<close>: the type is the period class
  and the creation time lies before the cut-off.
\<close>

definition expired :: "string \<Rightarrow> int \<Rightarrow> metadata \<Rightarrow> bool" where
  "expired backupType cutoff md = (md_type md = backupType \<and> md_createdAt md < cutoff)"

text \<open>The size and the chunk keys \<open>this.backups\<close> records for an id, if any.\<close>

definition recorded_size :: "state \<Rightarrow> string \<Rightarrow> int" where
  "recorded_size s backupId =
     (case map_of (backups s) backupId of None \<Rightarrow> 0 | Some md \<Rightarrow> int (md_size md))"

definition recorded_keys :: "state \<Rightarrow> string \<Rightarrow> string set" where
  "recorded_keys s backupId =
     (case map_of (backups s) backupId of
        None \<Rightarrow> {}
      | Some md \<Rightarrow> chunk_key backupId ` set (md_chunks md))"

text \<open>One round of the second loop of \<open>applyRetentionPolicy\<close>.\<close>

definition after_delete :: "env \<Rightarrow> config \<Rightarrow> string \<Rightarrow> state \<Rightarrow> state" where
  "after_delete E cfg backupId s =
     log_call (if isl (fst (deleteBackup E cfg backupId s)) then LError else LInfo)
       (if isl (fst (deleteBackup E cfg backupId s)) then ''Failed to delete expired backup''
        else ''Deleted expired backup'')
       (snd (deleteBackup E cfg backupId s))"

subsection \<open>Concrete inputs\<close>

text \<open>
  An environment to run the service in: the digest of a buffer is its hex print, the
  clock starts at 1000 ms and advances by one per reading, the local time zone keeps its
  offset (a calendar day is 86400000 ms), the random source yields zero bytes, and the
  storage backend and the scratch directory have no fault.
\<close>

definition sound_env :: env where
  "sound_env =
     \<lparr>sha256 = hex,
      time_at = (\<lambda>n. 1000 + int n),
      random_bytes = (\<lambda>n k. replicate k 0),
      days_before = (\<lambda>t n. t - n * 86400000),
      readback = (\<lambda>key b. Some b),
      undeletable = (\<lambda>key. False),
      unwritable = (\<lambda>d. False),
      stale = (\<lambda>p. False)\<rparr>"

text \<open>A configuration with no compression, no encryption, no key and local storage.\<close>

definition plain_config :: config where
  "plain_config =
     \<lparr>cfg_tempDir = ''/tmp'', cfg_dataDir = ''/data'',
      cfg_defaultCompression = NoCompression, cfg_defaultEncryption = NoEncryption,
      cfg_compressionLevel = 6, cfg_chunkSize = 2,
      cfg_retention = [(''daily'', 7), (''weekly'', 4), (''monthly'', 12), (''yearly'', 3)],
      cfg_timeout = 3600000, cfg_encryptionKey = None, cfg_requireIntegrityCheck = True,
      cfg_storageBackend = Local, cfg_storageConfig = [(Local, ''/backups/limahost'')]\<rparr>"

definition no_metrics :: metrics where
  "no_metrics =
     \<lparr>totalBackups = 0, successfulBackups = 0, failedBackups = 0, totalRestores = 0,
      successfulRestores = 0, failedRestores = 0, storageUsed = 0, lastBackupTime = None\<rparr>"

text \<open>A fresh service beside one running machine \<open>web-1\<close> with a three-byte disk image.\<close>

definition fresh_state :: state where
  "fresh_state =
     \<lparr>backups = [], operations = [], metrics = no_metrics, logs = [],
      vms = [(''web-1'', \<lparr>vm_state = VmRunning, vm_disk = [1, 2, 3]\<rparr>)],
      commands = [], store = [], files = [], dirs = [], documents = [], clock_reads = 0,
      random_draws = 0\<rparr>"

definition default_options :: backup_options where
  "default_options =
     \<lparr>opt_type = None, opt_description = None, opt_tags = [], opt_createdBy = None,
      opt_stopVm = False\<rparr>"

text \<open>
  Three operations when the clock reads 1000 and the timeout is 500 ms: one running since
  0, one running since 900, one completed that started at 0.
\<close>

definition an_operation :: "string \<Rightarrow> op_status \<Rightarrow> int \<Rightarrow> operation" where
  "an_operation oid st t0 =
     \<lparr>op_id = oid, op_kind = BackupOp, op_vmName = ''web-1'', op_backupId = ''b'',
      op_status = st, op_startTime = t0, op_endTime = None, op_progress = 0, op_size = 0,
      op_error = None\<rparr>"

definition sweep_state :: state where
  "sweep_state =
     fresh_state\<lparr>operations :=
       [(''op-a'', an_operation ''op-a'' Running 0),
        (''op-b'', an_operation ''op-b'' Running 900),
        (''op-c'', an_operation ''op-c'' OpCompleted 0)]\<rparr>"

text \<open>A metadata record with no chunks, for the machine \<open>web-1\<close>.\<close>

definition sample_metadata :: "string \<Rightarrow> string \<Rightarrow> backup_status \<Rightarrow> int \<Rightarrow> metadata" where
  "sample_metadata bid ty st created =
     \<lparr>md_id = bid, md_vmName = ''web-1'', md_type = ty, md_description = ''Backup of web-1'',
      md_tags = [], md_createdAt = created, md_createdBy = ''system'',
      md_compression = NoCompression, md_encryption = NoEncryption, md_chunkSize = 2,
      md_status = st, md_size = 0, md_chunks = [], md_checksum = None,
      md_integrityVerified = False, md_completedAt = None\<rparr>"

text \<open>
  The record of the chunk of backup \<open>bid\<close> with index \<open>i < 10\<close> and bytes \<open>b\<close>, its checksum
  being the digest of \<open>sound_env\<close>.
\<close>

definition sample_chunk :: "string \<Rightarrow> nat \<Rightarrow> bytes \<Rightarrow> chunk" where
  "sample_chunk bid i b =
     \<lparr>chunk_id = bid @ ''-chunk-00000'' @ show_nat i, chunk_backupId = bid,
      chunk_index = i, chunk_size = length b, chunk_checksum = hex b\<rparr>"

text \<open>
  A completed backup \<open>b1\<close> of three bytes in two chunks; the store holds the first chunk
  and has lost the second.
\<close>

definition delete_metadata :: metadata where
  "delete_metadata =
     (sample_metadata ''b1'' ''daily'' Completed 0)
       \<lparr>md_size := 3, md_chunks := [sample_chunk ''b1'' 0 [1, 2], sample_chunk ''b1'' 1 [3]]\<rparr>"

definition delete_state :: state where
  "delete_state =
     fresh_state
       \<lparr>backups := [(''b1'', delete_metadata)],
        metrics := no_metrics\<lparr>storageUsed := 3\<rparr>,
        store := [(''backups/b1/chunks/b1-chunk-000000'', [1, 2])],
        documents := [(''/data/metadata/b1.json'', delete_metadata)]\<rparr>"

text \<open>The same service with both chunks of \<open>b1\<close> in the store.\<close>

definition stored_state :: state where
  "stored_state =
     delete_state
       \<lparr>store := [(''backups/b1/chunks/b1-chunk-000000'', [1, 2]),
                  (''backups/b1/chunks/b1-chunk-000001'', [3])]\<rparr>"

text \<open>A storage backend that refuses every deletion.\<close>

definition refusing_env :: env where
  "refusing_env = sound_env\<lparr>undeletable := (\<lambda>key. True)\<rparr>"

text \<open>
  A backend that returns one wrong byte for the second chunk of \<open>b1\<close>, and every other
  object as stored.
\<close>

definition corrupt_chunk :: "string \<Rightarrow> bytes \<Rightarrow> bytes option" where
  "corrupt_chunk key b =
     (if key = ''backups/b1/chunks/b1-chunk-000001'' then Some [4] else Some b)"

definition corrupting_env :: env where
  "corrupting_env = sound_env\<lparr>readback := corrupt_chunk\<rparr>"

text \<open>
  Four backups when the clock reads 1000: a completed daily one of one chunk created seven
  days and one second ago, a completed daily one created six days and 23 hours ago, a
  completed weekly one and a failed daily one as old as the first.
\<close>

definition expired_metadata :: metadata where
  "expired_metadata =
     (sample_metadata ''d-old'' ''daily'' Completed (1000 - (7 * 86400000 + 1000)))
       \<lparr>md_size := 2, md_chunks := [sample_chunk ''d-old'' 0 [1, 2]]\<rparr>"

definition retention_state :: state where
  "retention_state =
     fresh_state
       \<lparr>backups :=
          [(''d-old'', expired_metadata),
           (''d-new'', sample_metadata ''d-new'' ''daily'' Completed (1000 - (6 * 86400000 + 23 * 3600000))),
           (''w-old'', sample_metadata ''w-old'' ''weekly'' Completed (1000 - (7 * 86400000 + 1000))),
           (''d-failed'', sample_metadata ''d-failed'' ''daily'' Failed (1000 - (7 * 86400000 + 1000)))],
        metrics := no_metrics\<lparr>storageUsed := 2\<rparr>,
        store := [(''backups/d-old/chunks/d-old-chunk-000000'', [1, 2])]\<rparr>"

text \<open>A restore request that names no target machine.\<close>

definition no_restore_options :: restore_options where
  "no_restore_options = \<lparr>ropt_vmName = None\<rparr>"

text \<open>
  A service that has loaded, from its metadata directory, the record of a backup \<open>b1\<close>
  still in the status \<open>creating\<close>, with no chunk listed yet.
\<close>

definition incomplete_state :: state where
  "incomplete_state =
     fresh_state\<lparr>backups := [(''b1'', sample_metadata ''b1'' ''manual'' Creating 900)]\<rparr>"

text \<open>
  A service in the middle of a backup of \<open>web-1\<close>: the operation of the backup requested
  at time 900 is registered and running.
\<close>

definition busy_state :: state where
  "busy_state =
     fresh_state\<lparr>operations :=
       [(''op-backup-900-00000000'',
         (an_operation ''op-backup-900-00000000'' Running 900)\<lparr>op_backupId := ''backup-900-00000000''\<rparr>)]\<rparr>"

text \<open>
  The scratch directory of a backup \<open>b1\<close> after the disk image was copied into it, and a
  service whose record of \<open>b1\<close> lists the two stored chunks in the order 1, 0.
\<close>

definition staged_state :: state where
  "staged_state =
     fresh_state\<lparr>files := [(''/tmp/b1/backup.tar'', [1, 2, 3])], dirs := [''/tmp/b1'']\<rparr>"

definition shuffled_metadata :: metadata where
  "shuffled_metadata =
     delete_metadata\<lparr>md_chunks := [sample_chunk ''b1'' 1 [3], sample_chunk ''b1'' 0 [1, 2]]\<rparr>"

definition shuffled_state :: state where
  "shuffled_state = stored_state\<lparr>backups := [(''b1'', shuffled_metadata)]\<rparr>"

section \<open>Properties\<close>

declare show_nat.simps [simp del]

subsection \<open>Association lists as maps\<close>

lemma update_middle:
  "k \<notin> fst ` set pre \<Longrightarrow> AList.update k v (pre @ (k, x) # rest) = pre @ (k, v) # rest"
  by (induction pre) auto

subsection \<open>The sweep for stuck operations\<close>

lemma sweep_loop_operations:
  "distinct (map fst (pre @ rest)) \<Longrightarrow> operations s = pre @ rest \<Longrightarrow>
   operations (sweep_loop cfg now rest s) =
     pre @ map (\<lambda>(k, operation). (k, mark_timeout cfg now operation)) rest"
proof (induction rest arbitrary: pre s)
  case Nil
  then show ?case by simp
next
  case (Cons a rest)
  obtain k operation where a: "a = (k, operation)" by (cases a)
  have k: "k \<notin> fst ` set pre" using Cons.prems(1) a by auto
  have d: "distinct (map fst ((pre @ [(k, mark_timeout cfg now operation)]) @ rest))"
    using Cons.prems(1) a by auto
  show ?case
  proof (cases "timed_out cfg now operation")
    case True
    let ?s = "log_call LWarn ''Operation timed out''
             (s\<lparr>operations := AList.update k
                    (operation\<lparr>op_status := Timeout, op_endTime := Some now,
                               op_error := Some ''Operation timed out''\<rparr>) (operations s)\<rparr>)"
    have "operations ?s = (pre @ [(k, mark_timeout cfg now operation)]) @ rest"
      using Cons.prems(2) a k True by (simp add: log_call_def update_middle mark_timeout_def)
    from Cons.IH[OF d this] show ?thesis using a True by simp
  next
    case False
    have "operations s = (pre @ [(k, mark_timeout cfg now operation)]) @ rest"
      using Cons.prems(2) a False by (simp add: mark_timeout_def)
    from Cons.IH[OF d this] show ?thesis using a False by simp
  qed
qed

lemma sweep_loop_outside: "outside_operations (sweep_loop cfg now rest s) = outside_operations s"
  by (induction rest arbitrary: s) (auto simp: outside_operations_def log_call_def)

text \<open>
  C9. A run of \<open>checkStuckOperations\<close> whose reading of the clock is \<open>now\<close> replaces
  every operation by its \<open>mark_timeout\<close>: exactly the operations that are running and
  started more than the timeout before \<open>now\<close> become \<open>timeout\<close>, with \<open>now\<close> as end time
  and an error message, and every other operation is left as it was. Nothing but the
  operation table, the log and the clock is touched: no machine is commanded, no chunk or
  file is removed, so the pipeline behind a marked operation goes on.
\<close>

theorem checkStuckOperations_marks_exactly_stuck:
  assumes "distinct (map fst (operations s))"
  shows "operations (checkStuckOperations E cfg s) =
           map (\<lambda>(k, operation). (k, mark_timeout cfg (time_at E (clock_reads s)) operation))
             (operations s)
         \<and> outside_operations (checkStuckOperations E cfg s) = outside_operations s"
  using sweep_loop_operations[of "[]" "operations s" "snd (date_now E s)" cfg
          "time_at E (clock_reads s)"] assms
    sweep_loop_outside[of cfg "time_at E (clock_reads s)" "operations s" "snd (date_now E s)"]
  by (simp add: checkStuckOperations_def date_now_def outside_operations_def)

theorem checkStuckOperations_witness:
  "distinct (map fst (operations sweep_state))
   \<and> map (\<lambda>(k, operation). (k, op_status operation, op_endTime operation))
       (operations (checkStuckOperations sound_env (plain_config\<lparr>cfg_timeout := 500\<rparr>) sweep_state))
     = [(''op-a'', Timeout, Some 1000), (''op-b'', Running, None), (''op-c'', OpCompleted, None)]
   \<and> outside_operations (checkStuckOperations sound_env (plain_config\<lparr>cfg_timeout := 500\<rparr>) sweep_state)
     = outside_operations sweep_state"
proof -
  have h: "distinct (map fst (operations sweep_state))"
    by (simp add: sweep_state_def fresh_state_def)
  from checkStuckOperations_marks_exactly_stuck[OF h, of sound_env "plain_config\<lparr>cfg_timeout := 500\<rparr>"]
  show ?thesis
    using h
    by (simp add: sweep_state_def fresh_state_def sound_env_def plain_config_def mark_timeout_def
        timed_out_def an_operation_def)
qed

subsection \<open>What the steps leave unchanged\<close>

lemma log_call_fields [simp]:
  "backups (log_call l m s) = backups s" "store (log_call l m s) = store s"
  "vms (log_call l m s) = vms s" "commands (log_call l m s) = commands s"
  "operations (log_call l m s) = operations s" "files (log_call l m s) = files s"
  "dirs (log_call l m s) = dirs s" "metrics (log_call l m s) = metrics s"
  by (simp_all add: log_call_def)

lemma cleanupTempFiles_fields [simp]:
  "backups (cleanupTempFiles E cfg d s) = backups s" "store (cleanupTempFiles E cfg d s) = store s"
  "vms (cleanupTempFiles E cfg d s) = vms s" "commands (cleanupTempFiles E cfg d s) = commands s"
  "operations (cleanupTempFiles E cfg d s) = operations s"
  by (simp_all add: cleanupTempFiles_def Let_def)

lemma deleteVmSnapshot_fields [simp]:
  "backups (deleteVmSnapshot a b s) = backups s" "store (deleteVmSnapshot a b s) = store s"
  "vms (deleteVmSnapshot a b s) = vms s" "operations (deleteVmSnapshot a b s) = operations s"
  by (simp_all add: deleteVmSnapshot_def Let_def split: option.splits)

lemma createVmSnapshot_fields [simp]:
  "backups (createVmSnapshot a b s) = backups s" "store (createVmSnapshot a b s) = store s"
  "vms (createVmSnapshot a b s) = vms s" "operations (createVmSnapshot a b s) = operations s"
  by (simp_all add: createVmSnapshot_def Let_def split: option.splits)

lemma vm_command_fields [simp]:
  "backups (snd (stopVm a s)) = backups s" "store (snd (stopVm a s)) = store s"
  "backups (snd (startVm a s)) = backups s" "store (snd (startVm a s)) = store s"
  by (simp_all add: stopVm_def startVm_def set_vm_state_def Let_def split: option.splits)

lemma performBackup_catch_fields [simp]:
  "fst (performBackup_catch E cfg vmName md d e s) = Inl e"
  "backups (snd (performBackup_catch E cfg vmName md d e s)) = backups s"
  "store (snd (performBackup_catch E cfg vmName md d e s)) = store s"
  "operations (snd (performBackup_catch E cfg vmName md d e s)) = operations s"
  by (simp_all add: performBackup_catch_def)

lemma createBackup_catch_fields [simp]:
  "backups (createBackup_catch E backupId e s) = backups s"
  "store (createBackup_catch E backupId e s) = store s"
  by (simp_all add: createBackup_catch_def Let_def modify_metrics_def modify_op_def date_now_def
      split: option.splits)

lemma restoreBackup_catch_fields:
  "fst (restoreBackup_catch E e s) = Inl e"
  "vms (snd (restoreBackup_catch E e s)) = vms s"
  "commands (snd (restoreBackup_catch E e s)) = commands s"
  "backups (snd (restoreBackup_catch E e s)) = backups s"
  by (simp_all add: restoreBackup_catch_def Let_def date_now_def log_call_def modify_op_def
      modify_metrics_def split: option.splits)

subsection \<open>No backup is completed\<close>

text \<open>
  \<open>performBackup\<close> ends in its \<open>catch\<close> block on every input: at the latest
  \<open>splitAndUpload\<close> throws. No chunk is stored, and the progress and the size of the
  operation are never written.
\<close>

lemma performBackup_rejects:
  "isl (fst (performBackup E cfg vmName md oid s))"
  "backups (snd (performBackup E cfg vmName md oid s)) = backups s"
  "store (snd (performBackup E cfg vmName md oid s)) = store s"
  "operations (snd (performBackup E cfg vmName md oid s)) = operations s"
  by (auto simp: performBackup_def Let_def splitAndUpload_def compressFile_def encryptFile_def
      copyVmDisk_def write_file_def mkdir_def randomBytes_def
      split: sum.splits prod.splits option.splits if_splits)

lemma createBackup_try_eq:
  "createBackup_try E cfg vmName backupId md oid s
     = (Inl (projl (fst (performBackup E cfg vmName md oid s))), snd (performBackup E cfg vmName md oid s))"
  using performBackup_rejects(1)[of E cfg vmName md oid s]
  by (cases "performBackup E cfg vmName md oid s") (auto simp: createBackup_try_def split: sum.splits)

lemma createBackup_body_rejects:
  "isl (fst (createBackup_body E cfg vmName options backupId startTime s))"
  "backups (snd (createBackup_body E cfg vmName options backupId startTime s)) = backups s"
  "store (snd (createBackup_body E cfg vmName options backupId startTime s)) = store s"
  by (auto simp: createBackup_body_def createBackup_try_eq Let_def date_now_def performBackup_rejects
      split_beta split: option.splits sum.splits)

lemma createBackup_body_not_Inr:
  "fst (createBackup_body E cfg vmName options backupId startTime s) \<noteq> Inr x"
  using createBackup_body_rejects(1)[of E cfg vmName options backupId startTime s] by auto

lemma createBackup_rejects:
  "isl (fst (createBackup E cfg vmName options s))"
  "backups (snd (createBackup E cfg vmName options s)) = backups s"
  "store (snd (createBackup E cfg vmName options s)) = store s"
  by (auto simp: createBackup_def Let_def split_beta date_now_def randomBytes_def
      createBackup_body_not_Inr createBackup_body_rejects split: sum.splits)

subsection \<open>No backup is restored\<close>

lemma performRestore_rejects:
  "fst (performRestore E cfg md options oid s)
     = Inl (if unwritable E (path_join (cfg_tempDir cfg) (''restore-'' @ md_id md))
            then DirectoryUnavailable (path_join (cfg_tempDir cfg) (''restore-'' @ md_id md))
            else no_createWriteStream)"
  "vms (snd (performRestore E cfg md options oid s)) = vms s"
  "commands (snd (performRestore E cfg md options oid s)) = commands s"
  "backups (snd (performRestore E cfg md options oid s)) = backups s"
  by (simp_all add: performRestore_def downloadAndReassembleChunks_def performRestore_catch_def
      Let_def mkdir_def)

text \<open>
  \<open>restoreBackup\<close> fails on every input: with the not-found error for an id that has no
  record, and for every recorded id with the \<open>TypeError\<close> of \<open>fs.createWriteStream\<close>, or
  before that with the error of a scratch directory that cannot be made. No machine is
  stopped, written to or started.
\<close>

lemma restoreBackup_rejects:
  "fst (restoreBackup E cfg backupId options s)
     = Inl (case map_of (backups s) backupId of
              None \<Rightarrow> BackupNotFound backupId
            | Some md \<Rightarrow>
                if unwritable E (path_join (cfg_tempDir cfg) (''restore-'' @ md_id md))
                then DirectoryUnavailable (path_join (cfg_tempDir cfg) (''restore-'' @ md_id md))
                else no_createWriteStream)"
  "vms (snd (restoreBackup E cfg backupId options s)) = vms s"
  "commands (snd (restoreBackup E cfg backupId options s)) = commands s"
  "backups (snd (restoreBackup E cfg backupId options s)) = backups s"
  by (cases "map_of (backups s) backupId";
      simp add: restoreBackup_def date_now_def Let_def restoreBackup_catch_fields
        split_beta performRestore_rejects)+

text \<open>
  C1 does not hold of the code: no round trip is ever made. Whatever the machine, the
  configuration and the options, \<open>createBackup\<close> fails, records no backup and stores no
  chunk, and \<open>restoreBackup\<close> fails and leaves every disk image as it was. The backup of
  \<open>web-1\<close> with no compression and no encryption fails with the \<open>TypeError\<close> of
  \<open>fs.createReadStream\<close>, and the restore of the recorded backup \<open>b1\<close>, whose chunks are
  both in the store, with the \<open>TypeError\<close> of \<open>fs.createWriteStream\<close>.
\<close>

theorem roundtrip_is_never_made:
  "isl (fst (createBackup E cfg vmName options s))
   \<and> backups (snd (createBackup E cfg vmName options s)) = backups s
   \<and> store (snd (createBackup E cfg vmName options s)) = store s
   \<and> isl (fst (restoreBackup E cfg backupId ropts s))
   \<and> vms (snd (restoreBackup E cfg backupId ropts s)) = vms s
   \<and> fst (createBackup sound_env plain_config ''web-1'' default_options fresh_state)
       = Inl (TypeError ''fs.createReadStream is not a function'')
   \<and> fst (restoreBackup sound_env plain_config ''b1'' no_restore_options stored_state)
       = Inl (TypeError ''fs.createWriteStream is not a function'')"
proof -
  have "fst (createBackup sound_env plain_config ''web-1'' default_options fresh_state)
       = Inl (TypeError ''fs.createReadStream is not a function'')"
    by code_simp
  moreover have "fst (restoreBackup sound_env plain_config ''b1'' no_restore_options stored_state)
       = Inl (TypeError ''fs.createWriteStream is not a function'')"
    by code_simp
  ultimately show ?thesis
    by (simp add: createBackup_rejects restoreBackup_rejects split: option.splits)
qed

subsection \<open>The chunk list\<close>

text \<open>
  C5 does not hold of the code: no chunk list is ever built and none is reassembled.
  \<open>splitAndUpload\<close> fails on every file and changes nothing, for the three-byte archive
  of \<open>staged_state\<close> with the \<open>TypeError\<close> of \<open>fs.createReadStream\<close>; so \<open>performBackup\<close>
  fails, stores no chunk and leaves the operations as they were.
  \<open>downloadAndReassembleChunks\<close> fails with the \<open>TypeError\<close> of \<open>fs.createWriteStream\<close>
  and changes nothing; so \<open>restoreBackup\<close> leaves the recorded chunk lists as they were:
  the list of \<open>b1\<close> in \<open>shuffled_state\<close> stays in the order 1, 0, and no scratch file is
  written.
\<close>

theorem chunks_are_never_split_or_reassembled:
  "isl (fst (splitAndUpload filePath md oid s))
   \<and> snd (splitAndUpload filePath md oid s) = s
   \<and> splitAndUpload ''/tmp/b1/backup.tar'' (sample_metadata ''b1'' ''manual'' Creating 900) ''op-b1''
         staged_state
       = (Inl (TypeError ''fs.createReadStream is not a function''), staged_state)
   \<and> isl (fst (performBackup E cfg vmName md oid s))
   \<and> store (snd (performBackup E cfg vmName md oid s)) = store s
   \<and> operations (snd (performBackup E cfg vmName md oid s)) = operations s
   \<and> downloadAndReassembleChunks cfg md oid s
       = (Inl (TypeError ''fs.createWriteStream is not a function''), s)
   \<and> backups (snd (restoreBackup E cfg backupId ropts s)) = backups s
   \<and> (case restoreBackup sound_env plain_config ''b1'' no_restore_options shuffled_state of
        (r, s') \<Rightarrow>
          r = Inl (TypeError ''fs.createWriteStream is not a function'')
        \<and> map_option (\<lambda>md. map chunk_index (md_chunks md)) (map_of (backups shuffled_state) ''b1'')
            = Some [1, 0]
        \<and> map_option (\<lambda>md. map chunk_index (md_chunks md)) (map_of (backups s') ''b1'')
            = Some [1, 0]
        \<and> files s' = [])"
proof -
  have "splitAndUpload ''/tmp/b1/backup.tar'' (sample_metadata ''b1'' ''manual'' Creating 900) ''op-b1''
         staged_state
       = (Inl (TypeError ''fs.createReadStream is not a function''), staged_state)"
    by (simp add: splitAndUpload_def staged_state_def fresh_state_def read_file_def
        no_createReadStream_def)
  moreover have "(case restoreBackup sound_env plain_config ''b1'' no_restore_options shuffled_state of
        (r, s') \<Rightarrow>
          r = Inl (TypeError ''fs.createWriteStream is not a function'')
        \<and> map_option (\<lambda>md. map chunk_index (md_chunks md)) (map_of (backups shuffled_state) ''b1'')
            = Some [1, 0]
        \<and> map_option (\<lambda>md. map chunk_index (md_chunks md)) (map_of (backups s') ''b1'')
            = Some [1, 0]
        \<and> files s' = [])"
    by code_simp
  moreover have "isl (fst (splitAndUpload filePath md oid s)) \<and> snd (splitAndUpload filePath md oid s) = s"
    by (simp add: splitAndUpload_def split: option.splits)
  ultimately show ?thesis
    by (simp add: performBackup_rejects restoreBackup_rejects downloadAndReassembleChunks_def
        no_createWriteStream_def)
qed

subsection \<open>Encryption without a key\<close>

text \<open>
  C8 holds of \<open>encryptFile\<close> and \<open>decryptFile\<close> and fails of the pipeline. When no
  encryption key is configured, \<open>encryptFile\<close> and \<open>decryptFile\<close> return the path they
  were given, change nothing and raise nothing, and a backup whose metadata asks for
  \<open>aes256\<close> runs exactly as it does for \<open>none\<close>, and so does a restore. But neither run
  proceeds: the backup fails, and so does the restore, which fails before it comes to
  \<open>decryptFile\<close>.
\<close>

theorem no_key_is_passthrough:
  assumes "no_key cfg"
  shows "encryptFile E cfg filePath et s = (Inr filePath, s)
       \<and> decryptFile cfg filePath et s = (Inr filePath, s)
       \<and> performBackup E cfg vmName (md\<lparr>md_encryption := Aes256\<rparr>) oid s
           = performBackup E cfg vmName (md\<lparr>md_encryption := NoEncryption\<rparr>) oid s
       \<and> isl (fst (performBackup E cfg vmName (md\<lparr>md_encryption := Aes256\<rparr>) oid s))
       \<and> performRestore E cfg (md\<lparr>md_encryption := Aes256\<rparr>) options oid s
           = performRestore E cfg (md\<lparr>md_encryption := NoEncryption\<rparr>) options oid s
       \<and> isl (fst (performRestore E cfg (md\<lparr>md_encryption := Aes256\<rparr>) options oid s))"
proof -
  have e: "\<And>f t s. encryptFile E cfg f t s = (Inr f, s)" using assms by (simp add: encryptFile_def)
  have d: "\<And>f t s. decryptFile cfg f t s = (Inr f, s)" using assms by (simp add: decryptFile_def)
  have b: "performBackup E cfg vmName (md\<lparr>md_encryption := Aes256\<rparr>) oid s
           = performBackup E cfg vmName (md\<lparr>md_encryption := NoEncryption\<rparr>) oid s"
    by (simp add: performBackup_def e splitAndUpload_def performBackup_catch_def Let_def
        cong: sum.case_cong prod.case_cong option.case_cong if_cong)
  have r: "performRestore E cfg (md\<lparr>md_encryption := Aes256\<rparr>) options oid s
           = performRestore E cfg (md\<lparr>md_encryption := NoEncryption\<rparr>) options oid s"
    by (simp add: performRestore_def downloadAndReassembleChunks_def mkdir_def Let_def)
  show ?thesis using e d b r by (simp add: performBackup_rejects performRestore_rejects)
qed

theorem no_key_witness:
  "no_key plain_config
   \<and> encryptFile sound_env plain_config ''/tmp/b1/backup.tar'' Aes256 staged_state
       = (Inr ''/tmp/b1/backup.tar'', staged_state)
   \<and> decryptFile plain_config ''/tmp/restore-b1/assembled.enc'' Aes256 staged_state
       = (Inr ''/tmp/restore-b1/assembled.enc'', staged_state)
   \<and> fst (performBackup sound_env plain_config ''web-1''
         ((sample_metadata ''b1'' ''manual'' Creating 900)\<lparr>md_encryption := Aes256\<rparr>) ''op-b1'' fresh_state)
       = Inl (TypeError ''fs.createReadStream is not a function'')
   \<and> fst (performRestore sound_env plain_config
         ((sample_metadata ''b1'' ''manual'' Completed 900)\<lparr>md_encryption := Aes256\<rparr>)
         no_restore_options ''op-restore-1001'' fresh_state)
       = Inl (TypeError ''fs.createWriteStream is not a function'')
   \<and> fst (createBackup sound_env (plain_config\<lparr>cfg_defaultEncryption := Aes256\<rparr>) ''web-1''
           default_options fresh_state)
       = Inl (TypeError ''fs.createReadStream is not a function'')"
proof -
  have h: "no_key plain_config" by (simp add: no_key_def plain_config_def)
  have whole: "fst (createBackup sound_env (plain_config\<lparr>cfg_defaultEncryption := Aes256\<rparr>) ''web-1''
           default_options fresh_state)
       = Inl (TypeError ''fs.createReadStream is not a function'')"
    by code_simp
  have run: "fst (performBackup sound_env plain_config ''web-1''
         ((sample_metadata ''b1'' ''manual'' Creating 900)\<lparr>md_encryption := Aes256\<rparr>) ''op-b1'' fresh_state)
       = Inl (TypeError ''fs.createReadStream is not a function'')"
    by code_simp
  have rerun: "fst (performRestore sound_env plain_config
         ((sample_metadata ''b1'' ''manual'' Completed 900)\<lparr>md_encryption := Aes256\<rparr>)
         no_restore_options ''op-restore-1001'' fresh_state)
       = Inl (TypeError ''fs.createWriteStream is not a function'')"
    by code_simp
  from no_key_is_passthrough[OF h] run rerun whole h show ?thesis
    by simp
qed

subsection \<open>Restoring a backup that is not completed\<close>

text \<open>
  C3 does not hold of the code. \<open>restoreBackup\<close> looks at no status: its error is the
  not-found error for an id with no record and, for every recorded id, the \<open>TypeError\<close> of
  \<open>fs.createWriteStream\<close>, or before that the error of a scratch directory that cannot be
  made. The record \<open>b1\<close> in the status \<open>creating\<close> is turned down with that \<open>TypeError\<close>,
  as it is when its status is \<open>completed\<close>, after a restore operation was registered, and
  the restore is counted as failed. No machine is commanded.
\<close>

theorem restoreBackup_looks_at_no_status:
  "fst (restoreBackup E cfg backupId ropts s)
     = Inl (case map_of (backups s) backupId of
              None \<Rightarrow> BackupNotFound backupId
            | Some md \<Rightarrow>
                if unwritable E (path_join (cfg_tempDir cfg) (''restore-'' @ md_id md))
                then DirectoryUnavailable (path_join (cfg_tempDir cfg) (''restore-'' @ md_id md))
                else TypeError ''fs.createWriteStream is not a function'')
   \<and> commands (snd (restoreBackup E cfg backupId ropts s)) = commands s
   \<and> vms (snd (restoreBackup E cfg backupId ropts s)) = vms s
   \<and> map_option md_status (map_of (backups incomplete_state) ''b1'') = Some Creating
   \<and> (case restoreBackup sound_env plain_config ''b1'' no_restore_options incomplete_state of
        (r, s') \<Rightarrow>
          r = Inl (TypeError ''fs.createWriteStream is not a function'')
        \<and> commands s' = []
        \<and> map (\<lambda>(k, operation). (k, op_kind operation, op_backupId operation)) (operations s')
            = [(''op-restore-1001'', RestoreOp, ''b1'')]
        \<and> failedRestores (metrics s') = 1)
   \<and> fst (restoreBackup sound_env plain_config ''b1'' no_restore_options
           (incomplete_state\<lparr>backups := [(''b1'', sample_metadata ''b1'' ''manual'' Completed 900)]\<rparr>))
       = Inl (TypeError ''fs.createWriteStream is not a function'')"
proof -
  have 1: "map_option md_status (map_of (backups incomplete_state) ''b1'') = Some Creating"
    by code_simp
  have 2: "(case restoreBackup sound_env plain_config ''b1'' no_restore_options incomplete_state of
        (r, s') \<Rightarrow>
          r = Inl (TypeError ''fs.createWriteStream is not a function'')
        \<and> commands s' = []
        \<and> map (\<lambda>(k, operation). (k, op_kind operation, op_backupId operation)) (operations s')
            = [(''op-restore-1001'', RestoreOp, ''b1'')]
        \<and> failedRestores (metrics s') = 1)"
    by code_simp
  have 3: "fst (restoreBackup sound_env plain_config ''b1'' no_restore_options
           (incomplete_state\<lparr>backups := [(''b1'', sample_metadata ''b1'' ''manual'' Completed 900)]\<rparr>))
       = Inl (TypeError ''fs.createWriteStream is not a function'')"
    by code_simp
  have 0: "fst (restoreBackup E cfg backupId ropts s)
     = Inl (case map_of (backups s) backupId of
              None \<Rightarrow> BackupNotFound backupId
            | Some md \<Rightarrow>
                if unwritable E (path_join (cfg_tempDir cfg) (''restore-'' @ md_id md))
                then DirectoryUnavailable (path_join (cfg_tempDir cfg) (''restore-'' @ md_id md))
                else TypeError ''fs.createWriteStream is not a function'')"
    by (simp add: restoreBackup_rejects no_createWriteStream_def cong: option.case_cong if_cong)
  show ?thesis
    using 0 1 2 3 restoreBackup_rejects(2,3)[of E cfg backupId ropts s] by simp
qed

subsection \<open>A second request for the same machine\<close>

text \<open>
  C4 does not hold of the code. \<open>createBackup\<close> looks at no operation: requested for
  \<open>web-1\<close> while a backup operation of \<open>web-1\<close> is running, it registers a second
  operation, takes and deletes a snapshot of the machine and copies the disk image, and
  then fails with the \<open>TypeError\<close> of \<open>fs.createReadStream\<close>, the error the same request
  meets when no operation is running. The second operation is left as failed.
\<close>

theorem createBackup_looks_at_no_operation:
  "map_option (\<lambda>operation. (op_kind operation, op_vmName operation, op_status operation))
     (map_of (operations busy_state) ''op-backup-900-00000000'') = Some (BackupOp, ''web-1'', Running)
   \<and> (case createBackup sound_env plain_config ''web-1'' default_options busy_state of
        (r, s') \<Rightarrow>
          r = Inl (TypeError ''fs.createReadStream is not a function'')
        \<and> map (\<lambda>(k, operation). (k, op_kind operation, op_vmName operation, op_status operation))
              (operations s')
            = [(''op-backup-900-00000000'', BackupOp, ''web-1'', Running),
               (''op-backup-1000-00000000'', BackupOp, ''web-1'', OpFailed)]
        \<and> commands s'
            = [SnapshotCreate ''web-1'' ''backup-1000-00000000-snapshot'',
               SnapshotDelete ''web-1'' ''backup-1000-00000000-snapshot'']
        \<and> map_of (files s') ''/tmp/backup-1000-00000000/backup.tar'' = Some [1, 2, 3]
        \<and> store s' = [])
   \<and> fst (createBackup sound_env plain_config ''web-1'' default_options fresh_state)
       = Inl (TypeError ''fs.createReadStream is not a function'')"
  by code_simp

subsection \<open>Verification\<close>

lemma verify_loop_result: "fst (verify_loop E cfg cs s) = list_all (rehashes E cfg s) cs"
  by (induction cs) (auto simp: rehashes_def split: sum.splits)

lemma verify_loop_state: "(snd (verify_loop E cfg cs s))\<lparr>logs := logs s\<rparr> = s"
  by (induction cs) (auto simp: log_call_def split: sum.splits)

lemma verifyBackupIntegrity_result:
  "fst (verifyBackupIntegrity E cfg cs x s)
     = (\<not> cfg_requireIntegrityCheck cfg \<or> list_all (rehashes E cfg s) cs)"
  by (simp add: verifyBackupIntegrity_def verify_loop_result)

text \<open>
  C2, as amended. The value \<open>verifyBackupIntegrity\<close> computes for \<open>integrityVerified\<close> is
  true exactly if integrity checking is disabled by configuration, or every chunk of the
  list, downloaded again from the store, has the SHA-256 recorded for it. With checking
  disabled the value is true at once and nothing is changed, whatever the store holds.
\<close>

theorem integrityVerified_meaning:
  "fst (verifyBackupIntegrity E cfg chunks expectedChecksum s)
     = (\<not> cfg_requireIntegrityCheck cfg \<or> (\<forall>ch \<in> set chunks. rehashes E cfg s ch))
   \<and> (\<not> cfg_requireIntegrityCheck cfg \<longrightarrow>
        verifyBackupIntegrity E cfg chunks expectedChecksum s = (True, s))"
  by (simp add: verifyBackupIntegrity_result list_all_iff) (simp add: verifyBackupIntegrity_def)

theorem integrityVerified_witness:
  "cfg_requireIntegrityCheck plain_config
   \<and> map (rehashes sound_env plain_config stored_state) (md_chunks delete_metadata) = [True, True]
   \<and> fst (verifyBackupIntegrity sound_env plain_config (md_chunks delete_metadata) ''010203'' stored_state)
       = True
   \<and> map (rehashes corrupting_env plain_config stored_state) (md_chunks delete_metadata) = [True, False]
   \<and> fst (verifyBackupIntegrity corrupting_env plain_config (md_chunks delete_metadata) ''010203'' stored_state)
       = False
   \<and> \<not> cfg_requireIntegrityCheck (plain_config\<lparr>cfg_requireIntegrityCheck := False\<rparr>)
   \<and> verifyBackupIntegrity sound_env (plain_config\<lparr>cfg_requireIntegrityCheck := False\<rparr>)
         (md_chunks delete_metadata) ''010203'' stored_state
       = (True, stored_state)"
proof -
  have h: "cfg_requireIntegrityCheck plain_config" by (simp add: plain_config_def)
  have good: "map (rehashes sound_env plain_config stored_state) (md_chunks delete_metadata) = [True, True]"
    by code_simp
  have bad: "map (rehashes corrupting_env plain_config stored_state) (md_chunks delete_metadata) = [True, False]"
    by code_simp
  have two: "\<exists>a b. md_chunks delete_metadata = [a, b]"
    by (simp add: delete_metadata_def)
  then obtain a b where ab: "md_chunks delete_metadata = [a, b]" by blast
  from integrityVerified_meaning[where E = sound_env and cfg = plain_config
      and chunks = "md_chunks delete_metadata" and expectedChecksum = "''010203''" and s = stored_state]
    h good
  have 1: "fst (verifyBackupIntegrity sound_env plain_config (md_chunks delete_metadata) ''010203'' stored_state)
       = True"
    by (simp add: ab)
  from integrityVerified_meaning[where E = corrupting_env and cfg = plain_config
      and chunks = "md_chunks delete_metadata" and expectedChecksum = "''010203''" and s = stored_state]
    h bad
  have 2: "fst (verifyBackupIntegrity corrupting_env plain_config (md_chunks delete_metadata) ''010203'' stored_state)
       = False"
    by (simp add: ab)
  from integrityVerified_meaning[where E = sound_env
      and cfg = "plain_config\<lparr>cfg_requireIntegrityCheck := False\<rparr>"
      and chunks = "md_chunks delete_metadata" and expectedChecksum = "''010203''" and s = stored_state]
  have 3: "verifyBackupIntegrity sound_env (plain_config\<lparr>cfg_requireIntegrityCheck := False\<rparr>)
         (md_chunks delete_metadata) ''010203'' stored_state
       = (True, stored_state)"
    by simp
  show ?thesis using h good bad 1 2 3 by simp
qed

text \<open>
  C2 as stated fails with integrity checking disabled: the value computed for
  \<open>integrityVerified\<close> is true, although the backend returns other bytes for the second
  chunk than the ones whose digest is recorded.
\<close>

theorem unchecked_chunks_are_reported_verified:
  "map (rehashes corrupting_env (plain_config\<lparr>cfg_requireIntegrityCheck := False\<rparr>) stored_state)
       (md_chunks delete_metadata) = [True, False]
   \<and> fst (verifyBackupIntegrity corrupting_env (plain_config\<lparr>cfg_requireIntegrityCheck := False\<rparr>)
           (md_chunks delete_metadata) ''010203'' stored_state)
       = True"
  by code_simp

text \<open>
  C10, as amended. \<open>verifyBackupIntegrity\<close> returns a boolean and changes nothing but the
  log. With integrity checking enabled it returns false when a chunk of the list cannot
  be downloaded, and when a downloaded chunk does not hash to its recorded checksum.
  With checking disabled it returns true.
\<close>

theorem verifyBackupIntegrity_never_raises:
  "(snd (verifyBackupIntegrity E cfg chunks expectedChecksum s))\<lparr>logs := logs s\<rparr> = s
   \<and> (cfg_requireIntegrityCheck cfg \<and> c \<in> set chunks
        \<and> downloadChunk E cfg (chunk_id c) (chunk_backupId c) s = Inl e \<longrightarrow>
        fst (verifyBackupIntegrity E cfg chunks expectedChecksum s) = False)
   \<and> (cfg_requireIntegrityCheck cfg \<and> c \<in> set chunks
        \<and> downloadChunk E cfg (chunk_id c) (chunk_backupId c) s = Inr b
        \<and> sha256 E b \<noteq> chunk_checksum c \<longrightarrow>
        fst (verifyBackupIntegrity E cfg chunks expectedChecksum s) = False)
   \<and> (\<not> cfg_requireIntegrityCheck cfg \<longrightarrow>
        fst (verifyBackupIntegrity E cfg chunks expectedChecksum s) = True)"
proof (intro conjI impI)
  show "(snd (verifyBackupIntegrity E cfg chunks expectedChecksum s))\<lparr>logs := logs s\<rparr> = s"
    by (simp add: verifyBackupIntegrity_def verify_loop_state)
next
  assume a: "cfg_requireIntegrityCheck cfg \<and> c \<in> set chunks
        \<and> downloadChunk E cfg (chunk_id c) (chunk_backupId c) s = Inl e"
  then have "\<not> rehashes E cfg s c" by (simp add: rehashes_def)
  with a have "\<not> list_all (rehashes E cfg s) chunks" by (auto simp: list_all_iff)
  with a show "fst (verifyBackupIntegrity E cfg chunks expectedChecksum s) = False"
    by (simp add: verifyBackupIntegrity_result)
next
  assume a: "cfg_requireIntegrityCheck cfg \<and> c \<in> set chunks
        \<and> downloadChunk E cfg (chunk_id c) (chunk_backupId c) s = Inr b
        \<and> sha256 E b \<noteq> chunk_checksum c"
  then have "\<not> rehashes E cfg s c" by (simp add: rehashes_def)
  with a have "\<not> list_all (rehashes E cfg s) chunks" by (auto simp: list_all_iff)
  with a show "fst (verifyBackupIntegrity E cfg chunks expectedChecksum s) = False"
    by (simp add: verifyBackupIntegrity_result)
next
  assume "\<not> cfg_requireIntegrityCheck cfg"
  then show "fst (verifyBackupIntegrity E cfg chunks expectedChecksum s) = True"
    by (simp add: verifyBackupIntegrity_def)
qed

theorem verifyBackupIntegrity_witness:
  "cfg_requireIntegrityCheck plain_config
   \<and> sample_chunk ''b1'' 1 [3] \<in> set (md_chunks delete_metadata)
   \<and> downloadChunk sound_env plain_config (chunk_id (sample_chunk ''b1'' 1 [3]))
         (chunk_backupId (sample_chunk ''b1'' 1 [3])) delete_state
       = Inl (ChunkUnavailable ''backups/b1/chunks/b1-chunk-000001'')
   \<and> fst (verifyBackupIntegrity sound_env plain_config (md_chunks delete_metadata) ''010203'' delete_state)
       = False
   \<and> downloadChunk corrupting_env plain_config (chunk_id (sample_chunk ''b1'' 1 [3]))
         (chunk_backupId (sample_chunk ''b1'' 1 [3])) stored_state
       = Inr [4]
   \<and> sha256 corrupting_env [4] \<noteq> chunk_checksum (sample_chunk ''b1'' 1 [3])
   \<and> fst (verifyBackupIntegrity corrupting_env plain_config (md_chunks delete_metadata) ''010203'' stored_state)
       = False
   \<and> (snd (verifyBackupIntegrity corrupting_env plain_config (md_chunks delete_metadata) ''010203''
              stored_state))\<lparr>logs := logs stored_state\<rparr>
       = stored_state
   \<and> \<not> cfg_requireIntegrityCheck (plain_config\<lparr>cfg_requireIntegrityCheck := False\<rparr>)
   \<and> fst (verifyBackupIntegrity sound_env (plain_config\<lparr>cfg_requireIntegrityCheck := False\<rparr>)
           (md_chunks delete_metadata) ''010203'' stored_state)
       = True"
proof -
  have h: "cfg_requireIntegrityCheck plain_config" by (simp add: plain_config_def)
  have m: "sample_chunk ''b1'' 1 [3] \<in> set (md_chunks delete_metadata)"
    by (simp add: delete_metadata_def)
  have d1: "downloadChunk sound_env plain_config (chunk_id (sample_chunk ''b1'' 1 [3]))
         (chunk_backupId (sample_chunk ''b1'' 1 [3])) delete_state
       = Inl (ChunkUnavailable ''backups/b1/chunks/b1-chunk-000001'')"
    by code_simp
  have d2: "downloadChunk corrupting_env plain_config (chunk_id (sample_chunk ''b1'' 1 [3]))
         (chunk_backupId (sample_chunk ''b1'' 1 [3])) stored_state
       = Inr [4]"
    by code_simp
  have ne: "sha256 corrupting_env [4] \<noteq> chunk_checksum (sample_chunk ''b1'' 1 [3])"
    by code_simp
  note missing = verifyBackupIntegrity_never_raises[where E = sound_env and cfg = plain_config
      and chunks = "md_chunks delete_metadata" and expectedChecksum = "''010203''" and s = delete_state
      and c = "sample_chunk ''b1'' 1 [3]"
      and e = "ChunkUnavailable ''backups/b1/chunks/b1-chunk-000001''" and b = "[4]"]
  note wrong = verifyBackupIntegrity_never_raises[where E = corrupting_env and cfg = plain_config
      and chunks = "md_chunks delete_metadata" and expectedChecksum = "''010203''" and s = stored_state
      and c = "sample_chunk ''b1'' 1 [3]"
      and e = "ChunkUnavailable ''backups/b1/chunks/b1-chunk-000001''" and b = "[4]"]
  note off = verifyBackupIntegrity_never_raises[where E = sound_env
      and cfg = "plain_config\<lparr>cfg_requireIntegrityCheck := False\<rparr>"
      and chunks = "md_chunks delete_metadata" and expectedChecksum = "''010203''" and s = stored_state
      and c = "sample_chunk ''b1'' 1 [3]"
      and e = "ChunkUnavailable ''backups/b1/chunks/b1-chunk-000001''" and b = "[4]"]
  from missing h m d1
  have 1: "fst (verifyBackupIntegrity sound_env plain_config (md_chunks delete_metadata) ''010203'' delete_state)
       = False"
    by blast
  from wrong h m d2 ne
  have 2: "fst (verifyBackupIntegrity corrupting_env plain_config (md_chunks delete_metadata) ''010203'' stored_state)
       = False"
    and 3: "(snd (verifyBackupIntegrity corrupting_env plain_config (md_chunks delete_metadata) ''010203''
              stored_state))\<lparr>logs := logs stored_state\<rparr>
       = stored_state"
    by blast+
  from off
  have 4: "fst (verifyBackupIntegrity sound_env (plain_config\<lparr>cfg_requireIntegrityCheck := False\<rparr>)
           (md_chunks delete_metadata) ''010203'' stored_state)
       = True"
    by simp
  show ?thesis using h m d1 d2 ne 1 2 3 4 by simp
qed

text \<open>
  C10 as stated fails with integrity checking disabled: the second chunk of \<open>b1\<close> is not
  in the store, so its download fails, and \<open>verifyBackupIntegrity\<close> returns true.
\<close>

theorem disabled_check_passes_a_missing_chunk:
  "downloadChunk sound_env (plain_config\<lparr>cfg_requireIntegrityCheck := False\<rparr>)
       (chunk_id (sample_chunk ''b1'' 1 [3])) (chunk_backupId (sample_chunk ''b1'' 1 [3])) delete_state
     = Inl (ChunkUnavailable ''backups/b1/chunks/b1-chunk-000001'')
   \<and> fst (verifyBackupIntegrity sound_env (plain_config\<lparr>cfg_requireIntegrityCheck := False\<rparr>)
           (md_chunks delete_metadata) ''010203'' delete_state)
       = True"
  by code_simp

subsection \<open>Deleting a backup\<close>

lemma filter_absent_key:
  "map_of xs k = None \<Longrightarrow> filter (\<lambda>(k', v). k' \<noteq> k) xs = xs"
  by (induction xs) (auto split: if_splits)

lemma deleteChunk_unconfigured:
  "storage_entry cfg = None \<Longrightarrow> deleteChunk E cfg cid backupId s = (Inl no_storage_entry, s)"
  by (simp add: deleteChunk_def)

lemma deleteChunk_configured:
  assumes "storage_entry cfg \<noteq> None"
  shows "deleteChunk E cfg cid backupId s =
     (Inr (), s\<lparr>store := filter (\<lambda>(k, b). \<not> (k = storage_key backupId cid \<and> \<not> undeletable E k)) (store s)\<rparr>)"
proof (cases "map_of (store s) (storage_key backupId cid) \<noteq> None \<and> \<not> undeletable E (storage_key backupId cid)")
  case True
  then have "filter (\<lambda>(k, b). \<not> (k = storage_key backupId cid \<and> \<not> undeletable E k)) (store s)
      = AList.delete (storage_key backupId cid) (store s)"
    unfolding AList.delete_eq by (intro filter_cong) auto
  then show ?thesis using True assms by (auto simp add: deleteChunk_def Let_def)
next
  case False
  then have "filter (\<lambda>(k, b). \<not> (k = storage_key backupId cid \<and> \<not> undeletable E k)) (store s) = store s"
  proof (cases "undeletable E (storage_key backupId cid)")
    case True
    then have "filter (\<lambda>(k, b). \<not> (k = storage_key backupId cid \<and> \<not> undeletable E k)) (store s)
       = filter (\<lambda>(k, b). True) (store s)"
      by (intro filter_cong) auto
    then show ?thesis by simp
  next
    case f: False
    with False have n: "map_of (store s) (storage_key backupId cid) = None" by simp
    have "filter (\<lambda>(k, b). \<not> (k = storage_key backupId cid \<and> \<not> undeletable E k)) (store s)
       = filter (\<lambda>(k, b). k \<noteq> storage_key backupId cid) (store s)"
      using f by (intro filter_cong) auto
    then show ?thesis using filter_absent_key[OF n] by simp
  qed
  then show ?thesis using False assms by (auto simp add: deleteChunk_def Let_def)
qed

lemma delete_chunks_loop_unconfigured:
  "storage_entry cfg = None \<Longrightarrow>
   delete_chunks_loop E cfg backupId cs s
     = s\<lparr>logs := logs s @ replicate (length cs) (LWarn, ''Failed to delete chunk'')\<rparr>"
  by (induction cs arbitrary: s)
     (simp_all add: deleteChunk_unconfigured log_call_def replicate_app_Cons_same)

lemma delete_chunks_loop_configured:
  assumes "storage_entry cfg \<noteq> None"
  shows "delete_chunks_loop E cfg backupId cs s =
     s\<lparr>store := filter (\<lambda>(k, b). \<not> (k \<in> chunk_key backupId ` set cs \<and> \<not> undeletable E k)) (store s)\<rparr>"
proof (induction cs arbitrary: s)
  case Nil
  then show ?case by simp
next
  case (Cons c cs)
  have "filter (\<lambda>(k, b). \<not> (k \<in> chunk_key backupId ` set cs \<and> \<not> undeletable E k))
          (filter (\<lambda>(k, b). \<not> (k = storage_key backupId (chunk_id c) \<and> \<not> undeletable E k)) (store s))
        = filter (\<lambda>(k, b). \<not> (k \<in> chunk_key backupId ` set (c # cs) \<and> \<not> undeletable E k)) (store s)"
    unfolding filter_filter by (intro filter_cong) (auto simp: chunk_key_def)
  then show ?case by (simp add: deleteChunk_configured[OF assms] Cons.IH)
qed

text \<open>
  What the loop over the chunks leaves: the chunks that could be removed are gone from
  the store, and there is one warning for each chunk when no delete request could be
  formed; a refused or pointless unlink leaves no trace.
\<close>

lemma delete_chunks_loop_state:
  "delete_chunks_loop E cfg backupId cs s =
     s\<lparr>store := filter (\<lambda>(k, b). \<not> (k \<in> chunk_key backupId ` set cs \<and> removable E cfg k)) (store s),
       logs := logs s @ (if storage_entry cfg = None
                         then replicate (length cs) (LWarn, ''Failed to delete chunk'') else [])\<rparr>"
proof (cases "storage_entry cfg = None")
  case True
  then have "filter (\<lambda>(k, b). \<not> (k \<in> chunk_key backupId ` set cs \<and> removable E cfg k)) (store s)
      = filter (\<lambda>(k, b). True) (store s)"
    by (intro filter_cong) (auto simp: removable_def)
  then show ?thesis using True by (simp add: delete_chunks_loop_unconfigured)
next
  case False
  then have "filter (\<lambda>(k, b). \<not> (k \<in> chunk_key backupId ` set cs \<and> removable E cfg k)) (store s)
      = filter (\<lambda>(k, b). \<not> (k \<in> chunk_key backupId ` set cs \<and> \<not> undeletable E k)) (store s)"
    by (intro filter_cong) (auto simp: removable_def)
  moreover from False obtain root where "storage_entry cfg = Some root" by blast
  ultimately show ?thesis using False by (simp add: delete_chunks_loop_configured)
qed

lemma deleteBackup_state:
  "snd (deleteBackup E cfg backupId s) =
     (case map_of (backups s) backupId of
        None \<Rightarrow> s
      | Some md \<Rightarrow>
          s\<lparr>store := filter (\<lambda>(k, b). \<not> (k \<in> chunk_key backupId ` set (md_chunks md) \<and> removable E cfg k)) (store s),
            logs := logs s @ (if storage_entry cfg = None
                              then replicate (length (md_chunks md)) (LWarn, ''Failed to delete chunk'')
                              else []),
            documents := AList.delete (path_join (path_join (cfg_dataDir cfg) ''metadata'') (backupId @ ''.json'')) (documents s),
            backups := AList.delete backupId (backups s),
            metrics := (metrics s)\<lparr>storageUsed := storageUsed (metrics s) - int (md_size md)\<rparr>\<rparr>)"
  by (simp add: deleteBackup_def Let_def delete_chunks_loop_state modify_metrics_def split: option.splits)

text \<open>
  \<open>deleteBackup\<close> on an id with no metadata record fails with the not-found error and
  changes nothing. On a recorded id it succeeds: the record is gone from \<open>this.backups\<close>
  and its document from the metadata directory, the other records stay, every chunk key
  of the record that can be removed is gone from the store, the storage-used metric goes
  down by the recorded size, and a second \<open>deleteBackup\<close> on the id fails with the
  not-found error. With a storage entry configured, nothing is logged.
\<close>

lemma deleteBackup_effect:
  "(map_of (backups s) backupId = None \<longrightarrow>
      deleteBackup E cfg backupId s = (Inl (BackupNotFound backupId), s))
   \<and> (\<forall>md. map_of (backups s) backupId = Some md \<longrightarrow>
        (\<exists>s'. deleteBackup E cfg backupId s = (Inr (), s')
           \<and> map_of (backups s') backupId = None
           \<and> map_of (documents s')
                (path_join (path_join (cfg_dataDir cfg) ''metadata'') (backupId @ ''.json'')) = None
           \<and> (\<forall>k. k \<noteq> backupId \<longrightarrow> map_of (backups s') k = map_of (backups s) k)
           \<and> (\<forall>c \<in> set (md_chunks md).
                 removable E cfg (chunk_key backupId c) \<longrightarrow> map_of (store s') (chunk_key backupId c) = None)
           \<and> storageUsed (metrics s') = storageUsed (metrics s) - int (md_size md)
           \<and> (storage_entry cfg \<noteq> None \<longrightarrow> logs s' = logs s)
           \<and> deleteBackup E cfg backupId s' = (Inl (BackupNotFound backupId), s')))"
proof (intro conjI allI impI)
  assume "map_of (backups s) backupId = None"
  then show "deleteBackup E cfg backupId s = (Inl (BackupNotFound backupId), s)"
    by (simp add: deleteBackup_def)
next
  fix md assume md: "map_of (backups s) backupId = Some md"
  define s' where "s' = snd (deleteBackup E cfg backupId s)"
  have 1: "deleteBackup E cfg backupId s = (Inr (), s')"
    using md by (simp add: s'_def deleteBackup_def Let_def)
  have b: "backups s' = AList.delete backupId (backups s)"
    using md by (simp add: s'_def deleteBackup_state)
  have st: "store s' = filter (\<lambda>(k, b). \<not> (k \<in> chunk_key backupId ` set (md_chunks md) \<and> removable E cfg k)) (store s)"
    using md by (simp add: s'_def deleteBackup_state)
  have 2: "map_of (backups s') backupId = None" by (simp add: b delete_conv')
  have 3: "\<forall>k. k \<noteq> backupId \<longrightarrow> map_of (backups s') k = map_of (backups s) k"
    by (simp add: b delete_conv')
  have 4: "\<forall>c \<in> set (md_chunks md).
                 removable E cfg (chunk_key backupId c) \<longrightarrow> map_of (store s') (chunk_key backupId c) = None"
  proof (intro ballI impI)
    fix c assume "c \<in> set (md_chunks md)" "removable E cfg (chunk_key backupId c)"
    then have "chunk_key backupId c \<notin> fst ` set (store s')"
      unfolding st by auto
    then show "map_of (store s') (chunk_key backupId c) = None"
      by (simp add: map_of_eq_None_iff)
  qed
  have 5: "storageUsed (metrics s') = storageUsed (metrics s) - int (md_size md)"
    using md by (simp add: s'_def deleteBackup_state)
  have 6: "storage_entry cfg \<noteq> None \<longrightarrow> logs s' = logs s"
    using md by (simp add: s'_def deleteBackup_state)
  have 7: "deleteBackup E cfg backupId s' = (Inl (BackupNotFound backupId), s')"
    using 2 by (simp add: deleteBackup_def)
  have 8: "map_of (documents s')
                (path_join (path_join (cfg_dataDir cfg) ''metadata'') (backupId @ ''.json'')) = None"
    using md by (simp add: s'_def deleteBackup_state delete_conv')
  show "\<exists>s'. deleteBackup E cfg backupId s = (Inr (), s')
           \<and> map_of (backups s') backupId = None
           \<and> map_of (documents s')
                (path_join (path_join (cfg_dataDir cfg) ''metadata'') (backupId @ ''.json'')) = None
           \<and> (\<forall>k. k \<noteq> backupId \<longrightarrow> map_of (backups s') k = map_of (backups s) k)
           \<and> (\<forall>c \<in> set (md_chunks md).
                 removable E cfg (chunk_key backupId c) \<longrightarrow> map_of (store s') (chunk_key backupId c) = None)
           \<and> storageUsed (metrics s') = storageUsed (metrics s) - int (md_size md)
           \<and> (storage_entry cfg \<noteq> None \<longrightarrow> logs s' = logs s)
           \<and> deleteBackup E cfg backupId s' = (Inl (BackupNotFound backupId), s')"
    using 1 2 3 4 5 6 7 8 by blast
qed

text \<open>
  C7 does not hold of the code where it has a failed chunk deletion logged. The backend
  of \<open>refusing_env\<close> refuses to delete the two chunks of \<open>b1\<close>: \<open>deleteBackup\<close> succeeds,
  the record, its document and its size in the metric are gone, both chunks are still
  stored, and no call of the log was made; nor is one made for the chunk of
  \<open>delete_state\<close> that is already absent. The warning of \<open>deleteBackup\<close> is written only
  when \<open>deleteChunk\<close> cannot form its request, as for the backend \<open>s3\<close> with no \<open>s3\<close>
  entry in the storage configuration. An id with no record is turned down with the
  not-found error.
\<close>

theorem deleteBackup_logs_no_failed_deletion:
  "(case deleteBackup refusing_env plain_config ''b1'' stored_state of
      (r, s') \<Rightarrow>
        r = Inr ()
      \<and> map_of (backups s') ''b1'' = None
      \<and> map_of (documents s') ''/data/metadata/b1.json'' = None
      \<and> storageUsed (metrics stored_state) = 3 \<and> storageUsed (metrics s') = 0
      \<and> store s' = [(''backups/b1/chunks/b1-chunk-000000'', [1, 2]),
                    (''backups/b1/chunks/b1-chunk-000001'', [3])]
      \<and> logs s' = [])
   \<and> (case deleteBackup sound_env plain_config ''b1'' delete_state of
        (r, s') \<Rightarrow> r = Inr () \<and> store s' = [] \<and> logs s' = [])
   \<and> storage_entry (plain_config\<lparr>cfg_storageBackend := S3\<rparr>) = None
   \<and> logs (snd (deleteBackup sound_env (plain_config\<lparr>cfg_storageBackend := S3\<rparr>) ''b1'' stored_state))
       = [(LWarn, ''Failed to delete chunk''), (LWarn, ''Failed to delete chunk'')]
   \<and> deleteBackup sound_env plain_config ''b2'' stored_state = (Inl (BackupNotFound ''b2''), stored_state)"
  by code_simp

subsection \<open>Retention\<close>

lemma retention_loop_Cons:
  "retention_loop E cfg (backupId # rest) s = retention_loop E cfg rest (after_delete E cfg backupId s)"
  unfolding after_delete_def
  by (cases "deleteBackup E cfg backupId s") (auto split: sum.splits)

lemma after_delete_backups: "backups (after_delete E cfg a s) = AList.delete a (backups s)"
  by (auto simp add: after_delete_def log_call_def deleteBackup_state map_of_eq_None_iff
      split: option.splits)

lemma after_delete_storageUsed:
  "storageUsed (metrics (after_delete E cfg a s)) = storageUsed (metrics s) - recorded_size s a"
  by (simp add: after_delete_def log_call_def deleteBackup_state recorded_size_def split: option.splits)

lemma after_delete_store:
  "store (after_delete E cfg a s) =
     filter (\<lambda>(k, b). \<not> (k \<in> recorded_keys s a \<and> removable E cfg k)) (store s)"
  by (simp add: after_delete_def log_call_def deleteBackup_state recorded_keys_def split: option.splits)

lemma retention_loop_backups:
  "backups (retention_loop E cfg ids s) = filter (\<lambda>(k, md). k \<notin> set ids) (backups s)"
proof (induction ids arbitrary: s)
  case Nil
  then show ?case by simp
next
  case (Cons a ids)
  have "filter (\<lambda>(k, md). k \<notin> set ids) (AList.delete a (backups s))
        = filter (\<lambda>(k, md). k \<notin> set (a # ids)) (backups s)"
    unfolding AList.delete_eq filter_filter by (intro filter_cong) auto
  then show ?case
    unfolding retention_loop_Cons Cons.IH after_delete_backups .
qed

lemma retention_loop_storageUsed:
  "distinct ids \<Longrightarrow>
   storageUsed (metrics (retention_loop E cfg ids s)) = storageUsed (metrics s) - (\<Sum>k\<leftarrow>ids. recorded_size s k)"
proof (induction ids arbitrary: s)
  case Nil
  then show ?case by simp
next
  case (Cons a ids)
  let ?s1 = "after_delete E cfg a s"
  have same: "\<And>k. k \<in> set ids \<Longrightarrow> recorded_size ?s1 k = recorded_size s k"
  proof -
    fix k assume "k \<in> set ids"
    then have "k \<noteq> a" using Cons.prems by auto
    then show "recorded_size ?s1 k = recorded_size s k"
      by (simp add: recorded_size_def after_delete_backups)
  qed
  have "(\<Sum>k\<leftarrow>ids. recorded_size ?s1 k) = (\<Sum>k\<leftarrow>ids. recorded_size s k)"
    by (rule arg_cong[where f = sum_list]) (simp add: same)
  moreover have "distinct ids" using Cons.prems by simp
  ultimately show ?case
    unfolding retention_loop_Cons by (simp add: Cons.IH after_delete_storageUsed)
qed

lemma retention_loop_store:
  "store (retention_loop E cfg ids s) =
     filter (\<lambda>(k, b). \<not> (k \<in> (\<Union>i\<in>set ids. recorded_keys s i) \<and> removable E cfg k)) (store s)"
proof (induction ids arbitrary: s)
  case Nil
  then show ?case by simp
next
  case (Cons a ids)
  let ?s1 = "after_delete E cfg a s"
  have keys: "\<And>i. recorded_keys ?s1 i = (if i = a then {} else recorded_keys s i)"
    by (auto simp: recorded_keys_def after_delete_backups delete_conv')
  have "filter (\<lambda>(k, b). \<not> (k \<in> (\<Union>i\<in>set ids. recorded_keys ?s1 i) \<and> removable E cfg k))
          (filter (\<lambda>(k, b). \<not> (k \<in> recorded_keys s a \<and> removable E cfg k)) (store s))
        = filter (\<lambda>(k, b). \<not> (k \<in> (\<Union>i\<in>set (a # ids). recorded_keys s i) \<and> removable E cfg k)) (store s)"
    unfolding filter_filter by (intro filter_cong) (auto simp: keys split: if_splits)
  then show ?case
    unfolding retention_loop_Cons Cons.IH after_delete_store .
qed

lemma expired_ids:
  assumes d: "distinct (map fst bs)"
  shows "filter (\<lambda>(k, md). k \<notin> set (map fst (filter (\<lambda>(k, md). P md) bs))) bs
         = filter (\<lambda>(k, md). \<not> P md) bs"
proof (intro filter_cong refl)
  fix x assume x: "x \<in> set bs"
  obtain k md where kmd: "x = (k, md)" by (cases x)
  have "k \<in> set (map fst (filter (\<lambda>(k, md). P md) bs)) \<longleftrightarrow> P md"
  proof
    assume "k \<in> set (map fst (filter (\<lambda>(k, md). P md) bs))"
    then obtain md' where m: "(k, md') \<in> set bs" "P md'" by auto
    from eq_key_imp_eq_value[OF d m(1)] x kmd have "md' = md" by simp
    with m show "P md" by simp
  next
    assume "P md"
    with x kmd show "k \<in> set (map fst (filter (\<lambda>(k, md). P md) bs))" by force
  qed
  then show "(case x of (k, md) \<Rightarrow> k \<notin> set (map fst (filter (\<lambda>(k, md). P md) bs)))
             = (case x of (k, md) \<Rightarrow> \<not> P md)"
    by (simp add: kmd)
qed

text \<open>
  With a non-zero retention of \<open>n\<close> days configured for the period class,
  \<open>applyRetentionPolicy\<close> reads the clock once and hands to \<open>deleteBackup\<close> the records
  of that type created before the cut-off, \<open>n\<close> calendar days before the reading: the
  status of a record is not looked at.
\<close>

lemma applyRetentionPolicy_exact:
  assumes d: "distinct (map fst (backups s))"
    and n: "map_of (cfg_retention cfg) backupType = Some n" "n \<noteq> 0"
  shows "backups (applyRetentionPolicy E cfg backupType s)
           = filter (\<lambda>(k, md). \<not> expired backupType (days_before E (time_at E (clock_reads s)) n) md) (backups s)
       \<and> storageUsed (metrics (applyRetentionPolicy E cfg backupType s))
           = storageUsed (metrics s)
             - (\<Sum>(k, md)\<leftarrow>filter (\<lambda>(k, md). expired backupType (days_before E (time_at E (clock_reads s)) n) md)
                                (backups s). int (md_size md))
       \<and> store (applyRetentionPolicy E cfg backupType s)
           = filter (\<lambda>(key, b). \<not> (key \<in> (\<Union>(k, md)\<in>set (filter (\<lambda>(k, md). expired backupType (days_before E (time_at E (clock_reads s)) n) md) (backups s)).
                                              chunk_key k ` set (md_chunks md))
                                 \<and> removable E cfg key)) (store s)"
proof -
  let ?cut = "days_before E (time_at E (clock_reads s)) n"
  let ?old = "filter (\<lambda>(k, md). expired backupType ?cut md) (backups s)"
  let ?s1 = "s\<lparr>clock_reads := Suc (clock_reads s)\<rparr>"
  have run: "applyRetentionPolicy E cfg backupType s = retention_loop E cfg (map fst ?old) ?s1"
    using n by (simp add: applyRetentionPolicy_def date_now_def Let_def expired_def)
  have present: "\<And>k md. (k, md) \<in> set ?old \<Longrightarrow> map_of (backups ?s1) k = Some md"
    using d by auto
  have 1: "backups (applyRetentionPolicy E cfg backupType s)
           = filter (\<lambda>(k, md). \<not> expired backupType ?cut md) (backups s)"
    unfolding run retention_loop_backups using expired_ids[OF d, of "expired backupType ?cut"] by simp
  have dist: "distinct (map fst ?old)" using d by (rule distinct_map_filter)
  have "(\<Sum>k\<leftarrow>map fst ?old. recorded_size ?s1 k) = (\<Sum>(k, md)\<leftarrow>?old. int (md_size md))"
    unfolding map_map by (rule arg_cong[where f = sum_list], rule map_cong[OF refl])
      (use present in \<open>auto simp: recorded_size_def\<close>)
  then have 2: "storageUsed (metrics (applyRetentionPolicy E cfg backupType s))
           = storageUsed (metrics s) - (\<Sum>(k, md)\<leftarrow>?old. int (md_size md))"
    unfolding run retention_loop_storageUsed[OF dist] by simp
  have "(\<Union>i\<in>set (map fst ?old). recorded_keys ?s1 i) = (\<Union>(k, md)\<in>set ?old. chunk_key k ` set (md_chunks md))"
  proof (intro equalityI subsetI)
    fix x assume "x \<in> (\<Union>i\<in>set (map fst ?old). recorded_keys ?s1 i)"
    then obtain k md where kmd: "(k, md) \<in> set ?old" and x: "x \<in> recorded_keys ?s1 k" by auto
    from present[OF kmd] x have "x \<in> chunk_key k ` set (md_chunks md)" by (simp add: recorded_keys_def)
    with kmd show "x \<in> (\<Union>(k, md)\<in>set ?old. chunk_key k ` set (md_chunks md))" by blast
  next
    fix x assume "x \<in> (\<Union>(k, md)\<in>set ?old. chunk_key k ` set (md_chunks md))"
    then obtain k md where kmd: "(k, md) \<in> set ?old" and x: "x \<in> chunk_key k ` set (md_chunks md)" by auto
    from present[OF kmd] x have "x \<in> recorded_keys ?s1 k" by (simp add: recorded_keys_def)
    moreover have "k \<in> set (map fst ?old)" using kmd by force
    ultimately show "x \<in> (\<Union>i\<in>set (map fst ?old). recorded_keys ?s1 i)" by blast
  qed
  then have 3: "store (applyRetentionPolicy E cfg backupType s)
           = filter (\<lambda>(key, b). \<not> (key \<in> (\<Union>(k, md)\<in>set ?old. chunk_key k ` set (md_chunks md))
                                 \<and> removable E cfg key)) (store s)"
    unfolding run retention_loop_store by simp
  show ?thesis using 1 2 3 by blast
qed

lemma map_of_filter_distinct:
  "distinct (map fst xs) \<Longrightarrow> map_of xs k = Some v \<Longrightarrow>
   map_of (filter (\<lambda>(k, v). Q v) xs) k = (if Q v then Some v else None)"
proof (induction xs)
  case Nil
  then show ?case by simp
next
  case (Cons a xs)
  obtain k' v' where a: "a = (k', v')" by (cases a)
  show ?case
  proof (cases "k' = k")
    case True
    with Cons.prems a have v: "v' = v" and "k \<notin> fst ` set xs" by auto
    then have "map_of (filter (\<lambda>(k, v). Q v) xs) k = None"
      by (auto simp: map_of_eq_None_iff)
    then show ?thesis using a True v by simp
  next
    case False
    with Cons a show ?thesis by simp
  qed
qed

text \<open>
  C6, as amended. With a non-zero retention of \<open>n\<close> days configured for the period class,
  \<open>applyRetentionPolicy\<close> deletes every completed record of that type created before the
  cut-off, which lies \<open>n\<close> calendar days of the local time zone before the reading of the
  clock, through \<open>deleteBackup\<close>: the record leaves \<open>this.backups\<close> and its chunks that
  can be removed leave the store. Every record of another type, or not created before
  the cut-off, stays as it is. With no retention or a retention of zero days configured
  for the class, nothing is deleted.
\<close>

theorem applyRetentionPolicy_effect:
  assumes d: "distinct (map fst (backups s))"
    and km: "map_of (backups s) k = Some md"
  shows "(map_of (cfg_retention cfg) backupType = Some n \<and> n \<noteq> 0 \<and> md_status md = Completed
            \<and> expired backupType (days_before E (time_at E (clock_reads s)) n) md \<longrightarrow>
          map_of (backups (applyRetentionPolicy E cfg backupType s)) k = None
          \<and> (\<forall>c \<in> set (md_chunks md).
                removable E cfg (chunk_key k c) \<longrightarrow>
                map_of (store (applyRetentionPolicy E cfg backupType s)) (chunk_key k c) = None))
       \<and> (map_of (cfg_retention cfg) backupType = Some n
            \<and> \<not> expired backupType (days_before E (time_at E (clock_reads s)) n) md \<longrightarrow>
          map_of (backups (applyRetentionPolicy E cfg backupType s)) k = Some md)
       \<and> (map_of (cfg_retention cfg) backupType = None \<or> map_of (cfg_retention cfg) backupType = Some 0 \<longrightarrow>
          applyRetentionPolicy E cfg backupType s = s)"
proof (intro conjI impI)
  assume a: "map_of (cfg_retention cfg) backupType = Some n \<and> n \<noteq> 0 \<and> md_status md = Completed
            \<and> expired backupType (days_before E (time_at E (clock_reads s)) n) md"
  let ?cut = "days_before E (time_at E (clock_reads s)) n"
  from a have n: "map_of (cfg_retention cfg) backupType = Some n" "n \<noteq> 0"
    and e: "expired backupType ?cut md" by simp_all
  note exact = applyRetentionPolicy_exact[OF d n, of E]
  from exact have b: "backups (applyRetentionPolicy E cfg backupType s)
      = filter (\<lambda>(k, md). \<not> expired backupType ?cut md) (backups s)" by blast
  show "map_of (backups (applyRetentionPolicy E cfg backupType s)) k = None"
    unfolding b using map_of_filter_distinct[OF d km, of "\<lambda>md. \<not> expired backupType ?cut md"] e by simp
  define K where "K = (\<Union>(k, md)\<in>set (filter (\<lambda>(k, md). expired backupType ?cut md) (backups s)).
                                              chunk_key k ` set (md_chunks md))"
  from exact have st: "store (applyRetentionPolicy E cfg backupType s)
           = filter (\<lambda>(key, b). \<not> (key \<in> K \<and> removable E cfg key)) (store s)"
    unfolding K_def by blast
  have mem: "(k, md) \<in> set (filter (\<lambda>(k, md). expired backupType ?cut md) (backups s))"
    using km e by (auto dest: map_of_SomeD)
  show "\<forall>c \<in> set (md_chunks md).
                removable E cfg (chunk_key k c) \<longrightarrow>
                map_of (store (applyRetentionPolicy E cfg backupType s)) (chunk_key k c) = None"
  proof (intro ballI impI)
    fix c assume c: "c \<in> set (md_chunks md)" "removable E cfg (chunk_key k c)"
    have "chunk_key k c \<in> K"
      unfolding K_def using mem c(1) by blast
    with c(2) have "chunk_key k c \<notin> fst ` set (filter (\<lambda>(key, b). \<not> (key \<in> K \<and> removable E cfg key)) (store s))"
      by auto
    then show "map_of (store (applyRetentionPolicy E cfg backupType s)) (chunk_key k c) = None"
      unfolding st by (simp add: map_of_eq_None_iff)
  qed
next
  assume a: "map_of (cfg_retention cfg) backupType = Some n
            \<and> \<not> expired backupType (days_before E (time_at E (clock_reads s)) n) md"
  let ?cut = "days_before E (time_at E (clock_reads s)) n"
  show "map_of (backups (applyRetentionPolicy E cfg backupType s)) k = Some md"
  proof (cases "n = 0")
    case True
    with a km show ?thesis by (simp add: applyRetentionPolicy_def)
  next
    case False
    from a have n: "map_of (cfg_retention cfg) backupType = Some n" by simp
    from applyRetentionPolicy_exact[OF d n False, of E]
    have b: "backups (applyRetentionPolicy E cfg backupType s)
      = filter (\<lambda>(k, md). \<not> expired backupType ?cut md) (backups s)" by blast
    show ?thesis
      unfolding b using map_of_filter_distinct[OF d km, of "\<lambda>md. \<not> expired backupType ?cut md"] a by simp
  qed
next
  assume "map_of (cfg_retention cfg) backupType = None \<or> map_of (cfg_retention cfg) backupType = Some 0"
  then show "applyRetentionPolicy E cfg backupType s = s"
    by (auto simp: applyRetentionPolicy_def)
qed

theorem applyRetentionPolicy_effect_witness:
  "distinct (map fst (backups retention_state))
   \<and> map_of (cfg_retention plain_config) ''daily'' = Some 7
   \<and> map_of (backups retention_state) ''d-old'' = Some expired_metadata
   \<and> md_status expired_metadata = Completed
   \<and> expired ''daily'' (days_before sound_env (time_at sound_env (clock_reads retention_state)) 7) expired_metadata
   \<and> map_of (store retention_state) ''backups/d-old/chunks/d-old-chunk-000000'' = Some [1, 2]
   \<and> map_of (backups (applyRetentionPolicy sound_env plain_config ''daily'' retention_state)) ''d-old'' = None
   \<and> map_of (store (applyRetentionPolicy sound_env plain_config ''daily'' retention_state))
         ''backups/d-old/chunks/d-old-chunk-000000'' = None
   \<and> map_of (backups retention_state) ''d-new''
       = Some (sample_metadata ''d-new'' ''daily'' Completed (1000 - (6 * 86400000 + 23 * 3600000)))
   \<and> \<not> expired ''daily'' (days_before sound_env (time_at sound_env (clock_reads retention_state)) 7)
       (sample_metadata ''d-new'' ''daily'' Completed (1000 - (6 * 86400000 + 23 * 3600000)))
   \<and> map_of (backups (applyRetentionPolicy sound_env plain_config ''daily'' retention_state)) ''d-new''
       = Some (sample_metadata ''d-new'' ''daily'' Completed (1000 - (6 * 86400000 + 23 * 3600000)))
   \<and> map_of (cfg_retention plain_config) ''manual'' = None
   \<and> applyRetentionPolicy sound_env plain_config ''manual'' retention_state = retention_state"
proof -
  have h1: "distinct (map fst (backups retention_state))"
    by (simp add: retention_state_def fresh_state_def)
  have h2: "map_of (cfg_retention plain_config) ''daily'' = Some 7"
    and h3: "map_of (cfg_retention plain_config) ''manual'' = None"
    by (simp_all add: plain_config_def)
  have old: "map_of (backups retention_state) ''d-old'' = Some expired_metadata"
    and new: "map_of (backups retention_state) ''d-new''
       = Some (sample_metadata ''d-new'' ''daily'' Completed (1000 - (6 * 86400000 + 23 * 3600000)))"
    and st: "map_of (store retention_state) ''backups/d-old/chunks/d-old-chunk-000000'' = Some [1, 2]"
    by (simp_all add: retention_state_def fresh_state_def)
  have e1: "expired ''daily'' (days_before sound_env (time_at sound_env (clock_reads retention_state)) 7) expired_metadata"
    and e2: "\<not> expired ''daily'' (days_before sound_env (time_at sound_env (clock_reads retention_state)) 7)
       (sample_metadata ''d-new'' ''daily'' Completed (1000 - (6 * 86400000 + 23 * 3600000)))"
    by (simp_all add: expired_def expired_metadata_def sample_metadata_def sound_env_def
        retention_state_def fresh_state_def)
  have c: "md_status expired_metadata = Completed"
    and cs: "md_chunks expired_metadata = [sample_chunk ''d-old'' 0 [1, 2]]"
    by (simp_all add: expired_metadata_def sample_metadata_def)
  have key: "chunk_key ''d-old'' (sample_chunk ''d-old'' 0 [1, 2]) = ''backups/d-old/chunks/d-old-chunk-000000''"
    by code_simp
  have del: "removable sound_env plain_config ''backups/d-old/chunks/d-old-chunk-000000''"
    by (simp add: removable_def storage_entry_def sound_env_def plain_config_def)
  from applyRetentionPolicy_effect[OF h1 old, of plain_config "''daily''" 7 sound_env] h2 e1 c
  have r1: "map_of (backups (applyRetentionPolicy sound_env plain_config ''daily'' retention_state)) ''d-old'' = None"
    and r1': "map_of (store (applyRetentionPolicy sound_env plain_config ''daily'' retention_state))
         ''backups/d-old/chunks/d-old-chunk-000000'' = None"
    by (simp_all add: cs key del)
  from applyRetentionPolicy_effect[OF h1 new, of plain_config "''daily''" 7 sound_env] h2 e2
  have r2: "map_of (backups (applyRetentionPolicy sound_env plain_config ''daily'' retention_state)) ''d-new''
       = Some (sample_metadata ''d-new'' ''daily'' Completed (1000 - (6 * 86400000 + 23 * 3600000)))"
    by simp
  from applyRetentionPolicy_effect[OF h1 old, of plain_config "''manual''" 7 sound_env] h3
  have r3: "applyRetentionPolicy sound_env plain_config ''manual'' retention_state = retention_state"
    by simp
  show ?thesis using h1 h2 h3 old new st e1 e2 c r1 r1' r2 r3 by simp
qed

text \<open>
  C6 as stated fails in two places. A retention of zero days is read as no retention:
  the completed daily backup \<open>d-old\<close>, created before the reading of the clock, stays.
  And a record that is not completed is not retained for that: under seven days, the failed
  daily backup \<open>d-failed\<close>, as old as the expired one, is deleted with it.
\<close>

theorem applyRetentionPolicy_zero_days_keeps_everything:
  "map_of (cfg_retention (plain_config\<lparr>cfg_retention := [(''daily'', 0)]\<rparr>)) ''daily'' = Some 0
   \<and> map_option (\<lambda>md. (md_type md, md_status md, md_createdAt md < days_before sound_env 1000 0))
       (map_of (backups retention_state) ''d-old'') = Some (''daily'', Completed, True)
   \<and> map_option md_status
       (map_of (backups (applyRetentionPolicy sound_env (plain_config\<lparr>cfg_retention := [(''daily'', 0)]\<rparr>)
                          ''daily'' retention_state)) ''d-old'') = Some Completed
   \<and> map_option md_status (map_of (backups retention_state) ''d-failed'') = Some Failed
   \<and> map_of (backups (applyRetentionPolicy sound_env plain_config ''daily'' retention_state)) ''d-failed''
       = None"
  by code_simp

end
